theory Spec2Isabelle
  imports Main "HOL-Library.Char_ord" "HOL-Library.List_Lexorder"
begin

section \<open>Python values\<close>

text \<open>
  The values that certificate records, block payloads and result dictionaries hold:
  \<^verbatim>\<open>None\<close>, booleans, unbounded integers, floats, strings, lists and dictionaries
  with string keys. A dictionary is the list of its items in insertion order, with
  distinct keys. A finite float is the decimal that \<^verbatim>\<open>repr\<close> prints for it
  (\<open>mantissa * 10 ^ exponent10\<close>); infinities and NaN are left out. A character is a
  code point below 256.
\<close>

datatype pyfloat = Float (mantissa: int) (exponent10: int)

datatype pyval =
    PNone
  | PBool bool
  | PInt int
  | PFloat pyfloat
  | PStr string
  | PList "pyval list"
  | PDict "(string \<times> pyval) list"

type_synonym pydict = "(string \<times> pyval) list"

datatype py_error = IndexError | TypeError | AttributeError

text \<open>\<^verbatim>\<open>d.get(k)\<close>, \<^verbatim>\<open>d.get(k, default)\<close> and \<^verbatim>\<open>k in d\<close> on a dictionary.\<close>

definition dict_get :: "pydict \<Rightarrow> string \<Rightarrow> pyval" where
  "dict_get d k = (case map_of d k of None \<Rightarrow> PNone | Some v \<Rightarrow> v)"

definition dict_get_default :: "pydict \<Rightarrow> string \<Rightarrow> pyval \<Rightarrow> pyval" where
  "dict_get_default d k dflt = (case map_of d k of None \<Rightarrow> dflt | Some v \<Rightarrow> v)"

definition dict_contains :: "pydict \<Rightarrow> string \<Rightarrow> bool" where
  "dict_contains d k = (map_of d k \<noteq> None)"

text \<open>
  The same method called on a value of unknown type: only a dictionary has \<^verbatim>\<open>get\<close>,
  every other value raises \<^verbatim>\<open>AttributeError\<close>.
\<close>

fun py_get :: "pyval \<Rightarrow> string \<Rightarrow> py_error + pyval" where
  "py_get (PDict d) k = Inr (dict_get d k)"
| "py_get _ k = Inl AttributeError"


text \<open>Truth value of a value in a condition.\<close>

fun py_truthy :: "pyval \<Rightarrow> bool" where
  "py_truthy PNone = False"
| "py_truthy (PBool b) = b"
| "py_truthy (PInt i) = (i \<noteq> 0)"
| "py_truthy (PFloat f) = (mantissa f \<noteq> 0)"
| "py_truthy (PStr s) = (s \<noteq> [])"
| "py_truthy (PList xs) = (xs \<noteq> [])"
| "py_truthy (PDict d) = (d \<noteq> [])"

text \<open>
  \<^verbatim>\<open>v >= n\<close> for an integer \<open>n\<close>: numbers compare by value (a boolean counts as 0 or
  1), anything else raises \<^verbatim>\<open>TypeError\<close>.
\<close>

definition float_ge_int :: "pyfloat \<Rightarrow> int \<Rightarrow> bool" where
  "float_ge_int f n =
     (if 0 \<le> exponent10 f then n \<le> mantissa f * 10 ^ nat (exponent10 f)
      else n * 10 ^ nat (- exponent10 f) \<le> mantissa f)"

fun py_ge_int :: "pyval \<Rightarrow> int \<Rightarrow> py_error + bool" where
  "py_ge_int (PInt i) n = Inr (n \<le> i)"
| "py_ge_int (PBool b) n = Inr (n \<le> (if b then 1 else 0))"
| "py_ge_int (PFloat f) n = Inr (float_ge_int f n)"
| "py_ge_int _ n = Inl TypeError"

text \<open>Slices \<^verbatim>\<open>s[:n]\<close> and repetition \<^verbatim>\<open>s * n\<close>; a negative \<open>n\<close> counts from the end.\<close>

definition py_prefix :: "'a list \<Rightarrow> int \<Rightarrow> 'a list" where
  "py_prefix s n = (if 0 \<le> n then take (nat n) s else take (length s - nat (- n)) s)"

definition py_repeat :: "'a list \<Rightarrow> int \<Rightarrow> 'a list" where
  "py_repeat s n = concat (replicate (nat n) s)"

section \<open>JSON serialisation\<close>

text \<open>
  \<^verbatim>\<open>json.dumps(v, sort_keys=True)\<close> with the default separators and
  \<^verbatim>\<open>ensure_ascii\<close>. The output is ASCII, so \<^verbatim>\<open>.encode()\<close> leaves it as it is. Every
  value of \<^typ>\<open>pyval\<close> is serialisable, so the \<^verbatim>\<open>default=str\<close> hook of
  \<^verbatim>\<open>calculate_hash\<close> is never called.
\<close>

definition digit_char :: "nat \<Rightarrow> char" where
  "digit_char n = ''0123456789'' ! n"

function digits_of :: "nat \<Rightarrow> string" where
  "digits_of n = (if n < 10 then [digit_char n] else digits_of (n div 10) @ [digit_char (n mod 10)])"
  by pat_completeness auto
termination
  by (relation "measure id") auto

declare digits_of.simps [simp del]

definition str_int :: "int \<Rightarrow> string" where
  "str_int i = (if i < 0 then CHR ''-'' # digits_of (nat (- i)) else digits_of (nat i))"

text \<open>
  \<^verbatim>\<open>float.__repr__\<close>: the digits without trailing zeros, in positional notation when
  the decimal point falls within them or close by, in exponent notation otherwise.
\<close>

fun strip_zeros :: "string \<Rightarrow> string" where
  "strip_zeros [] = []"
| "strip_zeros (c # cs) = (if c = CHR ''0'' then strip_zeros cs else c # cs)"

definition float_digits :: "pyfloat \<Rightarrow> string" where
  "float_digits f = rev (strip_zeros (rev (digits_of (nat \<bar>mantissa f\<bar>))))"

definition float_decpt :: "pyfloat \<Rightarrow> int" where
  "float_decpt f = int (length (digits_of (nat \<bar>mantissa f\<bar>))) + exponent10 f"

definition exponent_str :: "int \<Rightarrow> string" where
  "exponent_str x =
     (if x < 0 then CHR ''-'' else CHR ''+'') #
     (if \<bar>x\<bar> < 10 then CHR ''0'' # digits_of (nat \<bar>x\<bar>) else digits_of (nat \<bar>x\<bar>))"

definition float_repr_abs :: "string \<Rightarrow> int \<Rightarrow> string" where
  "float_repr_abs ds decpt =
     (if decpt > 16 \<or> decpt < -3 then
        hd ds # (if tl ds = [] then [] else CHR ''.'' # tl ds) @ CHR ''e'' # exponent_str (decpt - 1)
      else if decpt \<le> 0 then ''0.'' @ replicate (nat (- decpt)) (CHR ''0'') @ ds
      else if int (length ds) \<le> decpt then
        ds @ replicate (nat (decpt - int (length ds))) (CHR ''0'') @ ''.0''
      else take (nat decpt) ds @ CHR ''.'' # drop (nat decpt) ds)"

definition float_repr :: "pyfloat \<Rightarrow> string" where
  "float_repr f =
     (if mantissa f = 0 then ''0.0''
      else (if mantissa f < 0 then ''-'' else []) @ float_repr_abs (float_digits f) (float_decpt f))"

text \<open>
  A string between double quotes: the quote and the backslash are escaped, the usual
  control characters have their short form, every other character outside the printable
  ASCII range becomes \<^verbatim>\<open>\u00XX\<close>.
\<close>

fun hex_nibble :: "bool \<Rightarrow> bool \<Rightarrow> bool \<Rightarrow> bool \<Rightarrow> char" where
  "hex_nibble False False False False = CHR ''0''"
| "hex_nibble False False False True = CHR ''1''"
| "hex_nibble False False True False = CHR ''2''"
| "hex_nibble False False True True = CHR ''3''"
| "hex_nibble False True False False = CHR ''4''"
| "hex_nibble False True False True = CHR ''5''"
| "hex_nibble False True True False = CHR ''6''"
| "hex_nibble False True True True = CHR ''7''"
| "hex_nibble True False False False = CHR ''8''"
| "hex_nibble True False False True = CHR ''9''"
| "hex_nibble True False True False = CHR ''a''"
| "hex_nibble True False True True = CHR ''b''"
| "hex_nibble True True False False = CHR ''c''"
| "hex_nibble True True False True = CHR ''d''"
| "hex_nibble True True True False = CHR ''e''"
| "hex_nibble True True True True = CHR ''f''"

fun hex_byte :: "char \<Rightarrow> string" where
  "hex_byte (Char b0 b1 b2 b3 b4 b5 b6 b7) = [hex_nibble b7 b6 b5 b4, hex_nibble b3 b2 b1 b0]"

definition escape_char :: "char \<Rightarrow> string" where
  "escape_char c =
     (if c = CHR 0x22 then [CHR 0x5C, CHR 0x22]
      else if c = CHR 0x5C then [CHR 0x5C, CHR 0x5C]
      else if c = CHR 0x0A then [CHR 0x5C, CHR ''n'']
      else if c = CHR 0x0D then [CHR 0x5C, CHR ''r'']
      else if c = CHR 0x09 then [CHR 0x5C, CHR ''t'']
      else if c = CHR 0x08 then [CHR 0x5C, CHR ''b'']
      else if c = CHR 0x0C then [CHR 0x5C, CHR ''f'']
      else if (of_char c :: nat) < 32 \<or> 126 < (of_char c :: nat)
        then [CHR 0x5C, CHR ''u'', CHR ''0'', CHR ''0''] @ hex_byte c
      else [c])"

definition json_str :: "string \<Rightarrow> string" where
  "json_str s = CHR 0x22 # concat (map escape_char s) @ [CHR 0x22]"

fun join :: "string \<Rightarrow> string list \<Rightarrow> string" where
  "join sep [] = []"
| "join sep [x] = x"
| "join sep (x # y # ys) = x @ sep @ join sep (y # ys)"

definition json_item :: "string \<times> string \<Rightarrow> string" where
  "json_item kv = json_str (fst kv) @ '': '' @ snd kv"

fun json_dumps :: "pyval \<Rightarrow> string" where
  "json_dumps PNone = ''null''"
| "json_dumps (PBool b) = (if b then ''true'' else ''false'')"
| "json_dumps (PInt i) = str_int i"
| "json_dumps (PFloat f) = float_repr f"
| "json_dumps (PStr s) = json_str s"
| "json_dumps (PList xs) = ''['' @ join '', '' (map json_dumps xs) @ '']''"
| "json_dumps (PDict d) =
     ''{'' @ join '', '' (map json_item (sort_key fst (map (\<lambda>(k, v). (k, json_dumps v)) d))) @ ''}''"

section \<open>SHA-256\<close>

text \<open>
  \<^verbatim>\<open>hashlib.sha256(s.encode()).hexdigest()\<close> is the standard library's SHA-256
  (FIPS 180-4). A 32-bit word is the list of its bits, least significant first, so that
  every operation of the compression function is a structural recursion; a byte is a
  \<^typ>\<open>char\<close>, whose constructor holds its eight bits in the same order.
\<close>

type_synonym word32 = "bool list"

fun bxor :: "bool \<Rightarrow> bool \<Rightarrow> bool" where
  "bxor False False = False"
| "bxor False True = True"
| "bxor True False = True"
| "bxor True True = False"

fun band :: "bool \<Rightarrow> bool \<Rightarrow> bool" where
  "band False False = False"
| "band False True = False"
| "band True False = False"
| "band True True = True"

fun bnot :: "bool \<Rightarrow> bool" where
  "bnot False = True"
| "bnot True = False"

text \<open>The sum bit and the carry bit of a full adder.\<close>

fun fa_sum :: "bool \<Rightarrow> bool \<Rightarrow> bool \<Rightarrow> bool" where
  "fa_sum False False False = False"
| "fa_sum False False True = True"
| "fa_sum False True False = True"
| "fa_sum False True True = False"
| "fa_sum True False False = True"
| "fa_sum True False True = False"
| "fa_sum True True False = False"
| "fa_sum True True True = True"

fun fa_carry :: "bool \<Rightarrow> bool \<Rightarrow> bool \<Rightarrow> bool" where
  "fa_carry False False False = False"
| "fa_carry False False True = False"
| "fa_carry False True False = False"
| "fa_carry False True True = True"
| "fa_carry True False False = False"
| "fa_carry True False True = True"
| "fa_carry True True False = True"
| "fa_carry True True True = True"

fun wxor :: "word32 \<Rightarrow> word32 \<Rightarrow> word32" where
  "wxor (a # as) (b # bs) = bxor a b # wxor as bs"
| "wxor _ _ = []"

fun wand :: "word32 \<Rightarrow> word32 \<Rightarrow> word32" where
  "wand (a # as) (b # bs) = band a b # wand as bs"
| "wand _ _ = []"

fun wnot :: "word32 \<Rightarrow> word32" where
  "wnot (a # as) = bnot a # wnot as"
| "wnot [] = []"

text \<open>Addition modulo \<open>2 ^ 32\<close>: ripple carry, the carry out of the last bit dropped.\<close>

fun addc :: "bool \<Rightarrow> word32 \<Rightarrow> word32 \<Rightarrow> word32" where
  "addc c (a # as) (b # bs) = fa_sum a b c # addc (fa_carry a b c) as bs"
| "addc c _ _ = []"

definition wadd :: "word32 \<Rightarrow> word32 \<Rightarrow> word32" where
  "wadd x y = addc False x y"

definition rotr :: "nat \<Rightarrow> word32 \<Rightarrow> word32" where
  "rotr n w = drop n w @ take n w"

definition shr :: "nat \<Rightarrow> word32 \<Rightarrow> word32" where
  "shr n w = drop n w @ replicate n False"

definition ch :: "word32 \<Rightarrow> word32 \<Rightarrow> word32 \<Rightarrow> word32" where
  "ch x y z = wxor (wand x y) (wand (wnot x) z)"

definition maj :: "word32 \<Rightarrow> word32 \<Rightarrow> word32 \<Rightarrow> word32" where
  "maj x y z = wxor (wxor (wand x y) (wand x z)) (wand y z)"

definition bsig0 :: "word32 \<Rightarrow> word32" where
  "bsig0 x = wxor (wxor (rotr 2 x) (rotr 13 x)) (rotr 22 x)"

definition bsig1 :: "word32 \<Rightarrow> word32" where
  "bsig1 x = wxor (wxor (rotr 6 x) (rotr 11 x)) (rotr 25 x)"

definition ssig0 :: "word32 \<Rightarrow> word32" where
  "ssig0 x = wxor (wxor (rotr 7 x) (rotr 18 x)) (shr 3 x)"

definition ssig1 :: "word32 \<Rightarrow> word32" where
  "ssig1 x = wxor (wxor (rotr 17 x) (rotr 19 x)) (shr 10 x)"

text \<open>The bits of a number, least significant first.\<close>

function bits_of :: "nat \<Rightarrow> nat \<Rightarrow> bool list" where
  "bits_of k n = (if k = 0 then [] else odd n # bits_of (k - 1) (n div 2))"
  by pat_completeness auto
termination
  by (relation "measure fst") auto

declare bits_of.simps [simp del]


text \<open>
  The round constants (the first 32 bits of the fractional parts of the cube roots of the
  first 64 primes) and the initial hash value (the first 32 bits of the fractional parts of
  the square roots of the first 8 primes), as decimal numbers.
\<close>

definition K256 :: "word32 list" where
  "K256 = map (bits_of 32) [
     1116352408, 1899447441, 3049323471, 3921009573, 961987163, 1508970993, 2453635748,
     2870763221, 3624381080, 310598401, 607225278, 1426881987, 1925078388, 2162078206,
     2614888103, 3248222580, 3835390401, 4022224774, 264347078, 604807628, 770255983,
     1249150122, 1555081692, 1996064986, 2554220882, 2821834349, 2952996808, 3210313671,
     3336571891, 3584528711, 113926993, 338241895, 666307205, 773529912, 1294757372,
     1396182291, 1695183700, 1986661051, 2177026350, 2456956037, 2730485921, 2820302411,
     3259730800, 3345764771, 3516065817, 3600352804, 4094571909, 275423344, 430227734,
     506948616, 659060556, 883997877, 958139571, 1322822218, 1537002063, 1747873779,
     1955562222, 2024104815, 2227730452, 2361852424, 2428436474, 2756734187, 3204031479,
     3329325298]"

definition H256 :: "word32 list" where
  "H256 = map (bits_of 32) [
     1779033703, 3144134277, 1013904242, 2773480762, 1359893119, 2600822924, 528734635,
     1541459225]"


text \<open>
  One round on the working variables \<open>a\<close> to \<open>h\<close>, with the round constant \<open>k\<close>
  and the schedule word \<open>w\<close>.
\<close>

fun next_vars :: "word32 list \<Rightarrow> word32 \<Rightarrow> word32 \<Rightarrow> word32 list" where
  "next_vars [a, b, c, d, e, f, g, h] t1 t2 = [wadd t1 t2, a, b, c, wadd d t1, e, f, g]"
| "next_vars s t1 t2 = s"

fun temp1 :: "word32 list \<Rightarrow> word32 \<Rightarrow> word32 \<Rightarrow> word32" where
  "temp1 [a, b, c, d, e, f, g, h] k w = wadd (wadd (wadd h (bsig1 e)) (wadd (ch e f g) k)) w"
| "temp1 s k w = []"

fun temp2 :: "word32 list \<Rightarrow> word32" where
  "temp2 [a, b, c, d, e, f, g, h] = wadd (bsig0 a) (maj a b c)"
| "temp2 s = []"

definition round_step :: "word32 list \<Rightarrow> word32 \<Rightarrow> word32 \<Rightarrow> word32 list" where
  "round_step s k w = next_vars s (temp1 s k w) (temp2 s)"

text \<open>
  The 64 rounds, one per round constant. The second argument is the window
  \<open>W\<^sub>t, \<dots>, W\<^sub>t\<^sub>+\<^sub>1\<^sub>5\<close> of the message schedule: round \<open>t\<close> consumes \<open>W\<^sub>t\<close> and the
  window moves on by \<open>W\<^sub>t\<^sub>+\<^sub>1\<^sub>6 = \<sigma>\<^sub>1(W\<^sub>t\<^sub>+\<^sub>1\<^sub>4) + W\<^sub>t\<^sub>+\<^sub>9 + \<sigma>\<^sub>0(W\<^sub>t\<^sub>+\<^sub>1) + W\<^sub>t\<close>.
\<close>

fun rounds :: "word32 list \<Rightarrow> word32 list \<Rightarrow> word32 list \<Rightarrow> word32 list" where
  "rounds (k # ks) (w0 # w1 # w2 # w3 # w4 # w5 # w6 # w7 # w8 # w9 # w10 # w11 # w12 # w13 # w14 # w15 # ws) s =
     rounds ks (w1 # w2 # w3 # w4 # w5 # w6 # w7 # w8 # w9 # w10 # w11 # w12 # w13 # w14 # w15 # ws @
                [wadd (wadd (ssig1 w14) w9) (wadd (ssig0 w1) w0)]) (round_step s k w0)"
| "rounds _ _ s = s"

fun wadds :: "word32 list \<Rightarrow> word32 list \<Rightarrow> word32 list" where
  "wadds (x # xs) (y # ys) = wadd x y # wadds xs ys"
| "wadds _ _ = []"

definition compress :: "word32 list \<Rightarrow> word32 list \<Rightarrow> word32 list" where
  "compress hs blk = wadds hs (rounds K256 blk hs)"

text \<open>Bytes to big-endian words, words to blocks of sixteen.\<close>

fun bits_of_char :: "char \<Rightarrow> bool list" where
  "bits_of_char (Char b0 b1 b2 b3 b4 b5 b6 b7) = [b0, b1, b2, b3, b4, b5, b6, b7]"

fun be32 :: "string \<Rightarrow> word32 list" where
  "be32 (c0 # c1 # c2 # c3 # cs) =
     (bits_of_char c3 @ bits_of_char c2 @ bits_of_char c1 @ bits_of_char c0) # be32 cs"
| "be32 _ = []"

fun blocks16 :: "word32 list \<Rightarrow> word32 list list" where
  "blocks16 (w0 # w1 # w2 # w3 # w4 # w5 # w6 # w7 # w8 # w9 # w10 # w11 # w12 # w13 # w14 # w15 # ws) =
     [w0, w1, w2, w3, w4, w5, w6, w7, w8, w9, w10, w11, w12, w13, w14, w15] # blocks16 ws"
| "blocks16 _ = []"

text \<open>
  Padding: the byte \<open>0x80\<close>, zero bytes up to 56 modulo 64, and the length of the message
  in bits as eight big-endian bytes. \<open>zero_fill z s\<close> steps through the message with the
  zero bytes still owed, starting from 55 and starting again from 63 when they run out;
  \<open>byte_count\<close> counts the bytes in binary.
\<close>

fun zero_fill :: "string \<Rightarrow> string \<Rightarrow> string" where
  "zero_fill z [] = z"
| "zero_fill [] (c # cs) = zero_fill (replicate 63 (CHR 0x00)) cs"
| "zero_fill (z # zs) (c # cs) = zero_fill zs cs"

fun inc :: "bool list \<Rightarrow> bool list" where
  "inc [] = []"
| "inc (False # bs) = True # bs"
| "inc (True # bs) = False # inc bs"

fun byte_count :: "string \<Rightarrow> bool list \<Rightarrow> bool list" where
  "byte_count [] n = n"
| "byte_count (c # cs) n = byte_count cs (inc n)"

fun chars_be :: "bool list \<Rightarrow> string" where
  "chars_be (b0 # b1 # b2 # b3 # b4 # b5 # b6 # b7 # bs) =
     chars_be bs @ [Char b0 b1 b2 b3 b4 b5 b6 b7]"
| "chars_be _ = []"

definition bit_length :: "string \<Rightarrow> string" where
  "bit_length s = chars_be ([False, False, False] @ byte_count s (replicate 61 False))"

definition pad :: "string \<Rightarrow> string" where
  "pad s = s @ CHR 0x80 # zero_fill (replicate 55 (CHR 0x00)) s @ bit_length s"

text \<open>The digest in lower-case hexadecimal, most significant digit first.\<close>

fun hex_be :: "bool list \<Rightarrow> string" where
  "hex_be (b0 # b1 # b2 # b3 # bs) = hex_be bs @ [hex_nibble b3 b2 b1 b0]"
| "hex_be _ = []"

definition sha256_words :: "string \<Rightarrow> word32 list" where
  "sha256_words s = foldl compress H256 (blocks16 (be32 (pad s)))"

definition sha256_hexdigest :: "string \<Rightarrow> string" where
  "sha256_hexdigest s = concat (map hex_be (sha256_words s))"

section \<open>Block\<close>

record block =
  index :: int
  timestamp :: pyfloat
  data :: pydict
  previous_hash :: string
  nonce :: int
  hash :: string

text \<open>\<^verbatim>\<open>Block.calculate_hash\<close>: the digest of the five fields, keys sorted.\<close>

definition block_string :: "block \<Rightarrow> string" where
  "block_string b = json_dumps (PDict
     [(''index'', PInt (index b)),
      (''timestamp'', PFloat (timestamp b)),
      (''data'', PDict (data b)),
      (''previous_hash'', PStr (previous_hash b)),
      (''nonce'', PInt (nonce b))])"

definition calculate_hash :: "block \<Rightarrow> string" where
  "calculate_hash b = sha256_hexdigest (block_string b)"

text \<open>\<^verbatim>\<open>Block.__init__\<close>: the nonce starts at 0 and the hash is computed at once.\<close>

definition Block_init :: "int \<Rightarrow> pyfloat \<Rightarrow> pydict \<Rightarrow> string \<Rightarrow> block" where
  "Block_init i ts d prev =
     (let b = \<lparr>index = i, timestamp = ts, data = d, previous_hash = prev, nonce = 0, hash = []\<rparr>
      in b\<lparr>hash := calculate_hash b\<rparr>)"

text \<open>
  \<^verbatim>\<open>Block.mine_block\<close>. The body of the loop is \<open>mine_step\<close>; the loop may run for
  ever, so the result is an option and \<open>None\<close> stands for not returning.
\<close>

definition mine_step :: "block \<Rightarrow> block" where
  "mine_step b = (let b1 = b\<lparr>nonce := nonce b + 1\<rparr> in b1\<lparr>hash := calculate_hash b1\<rparr>)"

partial_function (option) mine_block :: "block \<Rightarrow> int \<Rightarrow> block option" where
  "mine_block b d =
     (if py_prefix (hash b) d \<noteq> py_repeat ''0'' d then mine_block (mine_step b) d else Some b)"

definition validate :: "block \<Rightarrow> bool" where
  "validate b = (calculate_hash b = hash b)"

section \<open>Blockchain\<close>

record blockchain =
  chain :: "block list"
  difficulty :: int
  pending_transactions :: "pyval list"

text \<open>
  The clock is an input: \<^verbatim>\<open>time.time()\<close> hands in a float and
  \<^verbatim>\<open>datetime.now().isoformat()\<close> a string, one argument for each reading, in the order
  the code takes them. \<^verbatim>\<open>save_to_file\<close> catches its own exceptions and leaves the
  object as it is, so writing the pickle file does not show in the model.
\<close>

definition genesis_data :: "string \<Rightarrow> pydict" where
  "genesis_data now =
     [(''type'', PStr ''genesis''),
      (''message'', PStr ''Certificate Verification Blockchain''),
      (''creator'', PStr ''System''),
      (''timestamp'', PStr now)]"

definition create_genesis_block :: "blockchain \<Rightarrow> pyfloat \<Rightarrow> string \<Rightarrow> blockchain option" where
  "create_genesis_block bc t now =
     (case mine_block (Block_init 0 t (genesis_data now) (py_repeat ''0'' 64)) (difficulty bc) of
        None \<Rightarrow> None
      | Some genesis_block \<Rightarrow> Some (bc\<lparr>chain := chain bc @ [genesis_block]\<rparr>))"

definition Blockchain_init :: "int \<Rightarrow> pyfloat \<Rightarrow> string \<Rightarrow> blockchain option" where
  "Blockchain_init d t now =
     create_genesis_block \<lparr>chain = [], difficulty = d, pending_transactions = []\<rparr> t now"

text \<open>\<^verbatim>\<open>self.chain[-1]\<close> raises \<^verbatim>\<open>IndexError\<close> on an empty list.\<close>

definition get_latest_block :: "blockchain \<Rightarrow> py_error + block" where
  "get_latest_block bc = (if chain bc = [] then Inl IndexError else Inr (last (chain bc)))"

definition add_block :: "blockchain \<Rightarrow> pydict \<Rightarrow> pyfloat \<Rightarrow> (py_error + block \<times> blockchain) option" where
  "add_block bc d t =
     (case get_latest_block bc of
        Inl e \<Rightarrow> Some (Inl e)
      | Inr latest_block \<Rightarrow>
          (case mine_block (Block_init (int (length (chain bc))) t d (hash latest_block))
                  (difficulty bc) of
             None \<Rightarrow> None
           | Some new_block \<Rightarrow> Some (Inr (new_block, bc\<lparr>chain := chain bc @ [new_block]\<rparr>))))"

definition calculate_certificate_hash :: "pydict \<Rightarrow> string \<Rightarrow> string" where
  "calculate_certificate_hash certificate_data now =
     sha256_hexdigest (json_dumps (PDict
       [(''certificate_number'', dict_get certificate_data ''certificate_number''),
        (''owner_id'', dict_get certificate_data ''owner_id''),
        (''file_hash'', dict_get_default certificate_data ''file_hash'' (PStr [])),
        (''timestamp'', PStr now)]))"

text \<open>
  The transaction dictionary of \<^verbatim>\<open>add_certificate_transaction\<close>; \<open>t_verified\<close>,
  \<open>t_hash\<close> and \<open>t_meta\<close> are its three readings of \<^verbatim>\<open>datetime.now()\<close>.
\<close>

definition certificate_transaction :: "pydict \<Rightarrow> string \<Rightarrow> string \<Rightarrow> string \<Rightarrow> pydict" where
  "certificate_transaction certificate_data t_verified t_hash t_meta =
     [(''type'', PStr ''certificate_verification''),
      (''certificate_id'', dict_get certificate_data ''certificate_id''),
      (''certificate_number'', dict_get certificate_data ''certificate_number''),
      (''certificate_type'', dict_get certificate_data ''certificate_type''),
      (''owner_id'', dict_get certificate_data ''owner_id''),
      (''owner_name'', dict_get_default certificate_data ''owner_name'' (PStr ''Unknown'')),
      (''verification_status'',
         dict_get_default certificate_data ''verification_status'' (PStr ''pending'')),
      (''verified_by'', dict_get certificate_data ''verified_by''),
      (''verified_at'', PStr t_verified),
      (''hash'', PStr (calculate_certificate_hash certificate_data t_hash)),
      (''metadata'', PDict
         [(''confidence_score'', dict_get_default certificate_data ''confidence_score'' (PInt 0)),
          (''file_hash'', dict_get_default certificate_data ''file_hash'' (PStr [])),
          (''timestamp'', PStr t_meta)])]"

definition registration_payload :: "pydict \<Rightarrow> pydict" where
  "registration_payload transaction =
     [(''transaction_type'', PStr ''certificate_registration''),
      (''transaction'', PDict transaction)]"

definition add_certificate_transaction ::
  "blockchain \<Rightarrow> pydict \<Rightarrow> string \<Rightarrow> string \<Rightarrow> string \<Rightarrow> pyfloat \<Rightarrow>
   (py_error + string \<times> blockchain) option" where
  "add_certificate_transaction bc certificate_data t_verified t_hash t_meta t_block =
     (case add_block bc
             (registration_payload (certificate_transaction certificate_data t_verified t_hash t_meta))
             t_block of
        None \<Rightarrow> None
      | Some (Inl e) \<Rightarrow> Some (Inl e)
      | Some (Inr (blk, bc')) \<Rightarrow> Some (Inr (hash blk, bc')))"

text \<open>
  The test both scans make on a block, and the transaction they then read.
  \<^verbatim>\<open>datetime.fromtimestamp(t).isoformat()\<close> depends on the time zone of the host: it
  is the parameter \<open>isoformat\<close> of the queries.
\<close>

definition is_registration :: "block \<Rightarrow> bool" where
  "is_registration b = (dict_get (data b) ''transaction_type'' = PStr ''certificate_registration'')"

definition block_transaction :: "block \<Rightarrow> pyval" where
  "block_transaction b = dict_get_default (data b) ''transaction'' (PDict [])"

definition not_found :: pydict where
  "not_found =
     [(''exists'', PBool False), (''verified'', PBool False),
      (''verification_status'', PStr ''NOT_FOUND'')]"

definition found :: "(pyfloat \<Rightarrow> string) \<Rightarrow> block \<Rightarrow> pyval \<Rightarrow> pydict" where
  "found isoformat b transaction =
     [(''exists'', PBool True),
      (''verified'', PBool True),
      (''block_index'', PInt (index b)),
      (''block_hash'', PStr (hash b)),
      (''timestamp'', PFloat (timestamp b)),
      (''human_time'', PStr (isoformat (timestamp b))),
      (''transaction'', transaction),
      (''verification_status'', PStr ''VALID'')]"

fun verify_loop :: "(pyfloat \<Rightarrow> string) \<Rightarrow> block list \<Rightarrow> string \<Rightarrow> py_error + pydict" where
  "verify_loop isoformat [] certificate_hash = Inr not_found"
| "verify_loop isoformat (b # bs) certificate_hash =
     (if is_registration b \<and> dict_contains (data b) ''transaction'' then
        (case py_get (block_transaction b) ''hash'' of
           Inl e \<Rightarrow> Inl e
         | Inr h \<Rightarrow>
             if h = PStr certificate_hash then Inr (found isoformat b (block_transaction b))
             else verify_loop isoformat bs certificate_hash)
      else verify_loop isoformat bs certificate_hash)"

definition verify_certificate :: "(pyfloat \<Rightarrow> string) \<Rightarrow> blockchain \<Rightarrow> string \<Rightarrow> py_error + pydict" where
  "verify_certificate isoformat bc certificate_hash = verify_loop isoformat (chain bc) certificate_hash"




text \<open>
  \<^verbatim>\<open>is_chain_valid\<close>. The loop returns what it prints as well: the index of the block
  where it stops, and which of the two checks failed there.
\<close>

datatype chain_report = Chain_ok | Invalid_hash nat | Invalid_previous_hash nat

function is_chain_valid_loop :: "block list \<Rightarrow> nat \<Rightarrow> chain_report" where
  "is_chain_valid_loop c i =
     (if i < length c then
        (if \<not> validate (c ! i) then Invalid_hash i
         else if previous_hash (c ! i) \<noteq> hash (c ! (i - 1)) then Invalid_previous_hash i
         else is_chain_valid_loop c (i + 1))
      else Chain_ok)"
  by pat_completeness auto
termination
  by (relation "measure (\<lambda>(c, i). length c - i)") auto

declare is_chain_valid_loop.simps [simp del]

definition is_chain_valid_report :: "blockchain \<Rightarrow> chain_report" where
  "is_chain_valid_report bc = is_chain_valid_loop (chain bc) 1"

definition is_chain_valid :: "blockchain \<Rightarrow> bool" where
  "is_chain_valid bc = (is_chain_valid_report bc = Chain_ok)"

fun stats_loop :: "block list \<Rightarrow> int \<Rightarrow> int \<Rightarrow> py_error + int \<times> int" where
  "stats_loop [] total_certificates verified_certificates =
     Inr (total_certificates, verified_certificates)"
| "stats_loop (b # bs) total_certificates verified_certificates =
     (if is_registration b then
        (case py_get (block_transaction b) ''verification_status'' of
           Inl e \<Rightarrow> Inl e
         | Inr s \<Rightarrow>
             stats_loop bs (total_certificates + 1)
               (if s = PStr ''verified'' then verified_certificates + 1 else verified_certificates))
      else stats_loop bs total_certificates verified_certificates)"

definition get_chain_stats :: "blockchain \<Rightarrow> py_error + pydict" where
  "get_chain_stats bc =
     (case stats_loop (chain bc) 0 0 of
        Inl e \<Rightarrow> Inl e
      | Inr (total_certificates, verified_certificates) \<Rightarrow>
          Inr [(''total_blocks'', PInt (int (length (chain bc)))),
               (''total_certificates'', PInt total_certificates),
               (''verified_certificates'', PInt verified_certificates),
               (''chain_valid'', PBool (is_chain_valid bc)),
               (''difficulty'', PInt (difficulty bc)),
               (''latest_block_hash'',
                  if chain bc \<noteq> [] then PStr (hash (last (chain bc))) else PNone),
               (''latest_block_index'', PInt (int (length (chain bc)) - 1))])"

section \<open>Smart contract\<close>

text \<open>
  \<^verbatim>\<open>CertificateSmartContract.validate_certificate\<close>. The comparison of the confidence
  score with 60 raises \<^verbatim>\<open>TypeError\<close> on a value that is not a number. There are
  always four rules, so the score \<^verbatim>\<open>round(passed / 4 * 100, 2)\<close> is one of 0.0, 25.0,
  50.0, 75.0 and 100.0.
\<close>

definition rule :: "bool \<Rightarrow> string \<Rightarrow> string list" where
  "rule holds name = (if holds then [name] else [])"

definition validate_certificate :: "pydict \<Rightarrow> string \<Rightarrow> py_error + pydict" where
  "validate_certificate certificate_data now =
     (let r1 = py_truthy (dict_get certificate_data ''certificate_number'');
          r2 = py_truthy (dict_get certificate_data ''owner_id'');
          r3 = py_truthy (dict_get certificate_data ''file_hash'')
      in case py_ge_int (dict_get_default certificate_data ''confidence_score'' (PInt 0)) 60 of
           Inl e \<Rightarrow> Inl e
         | Inr r4 \<Rightarrow>
             (let rules_passed =
                    rule r1 ''certificate_number_present'' @ rule r2 ''owner_id_present'' @
                    rule r3 ''file_hash_present'' @ rule r4 ''confidence_score_above_60'';
                  rules_failed =
                    rule (\<not> r1) ''certificate_number_missing'' @ rule (\<not> r2) ''owner_id_missing'' @
                    rule (\<not> r3) ''file_hash_missing'' @ rule (\<not> r4) ''confidence_score_below_60'';
                  total_rules = length rules_passed + length rules_failed
              in Inr [(''valid'', PBool (length rules_failed = 0)),
                      (''validation_score'',
                         if total_rules > 0
                         then PFloat (Float (int (length rules_passed) * 100 div int total_rules) 0)
                         else PInt 0),
                      (''rules_passed'', PList (map PStr rules_passed)),
                      (''rules_failed'', PList (map PStr rules_failed)),
                      (''total_rules'', PInt (int total_rules)),
                      (''timestamp'', PStr now)]))"

section \<open>Manager\<close>

text \<open>
  The readings of the clock during one call of \<^verbatim>\<open>register_certificate\<close>, in the order
  they are taken: by the smart contract, three times while the transaction is built, by
  the constructor of the block, by the second call of \<^verbatim>\<open>calculate_certificate_hash\<close>
  and for the result.
\<close>

record clock =
  validation_now :: string
  verified_at_now :: string
  hash_now :: string
  metadata_now :: string
  block_time :: pyfloat
  rehash_now :: string
  result_now :: string

text \<open>\<^verbatim>\<open>str(e)\<close> of the one exception the \<^verbatim>\<open>try\<close> block can meet.\<close>

fun str_error :: "py_error \<Rightarrow> string" where
  "str_error IndexError = ''list index out of range''"
| "str_error e = []"

definition register_certificate ::
  "blockchain \<Rightarrow> pydict \<Rightarrow> clock \<Rightarrow> (py_error + pydict \<times> blockchain) option" where
  "register_certificate bc certificate_data clk =
     (case validate_certificate certificate_data (validation_now clk) of
        Inl e \<Rightarrow> Some (Inl e)
      | Inr validation_result \<Rightarrow>
          if \<not> py_truthy (dict_get validation_result ''valid'') then
            Some (Inr ([(''success'', PBool False),
                        (''error'', PStr ''Certificate failed smart contract validation''),
                        (''validation_result'', PDict validation_result)], bc))
          else
            (case add_certificate_transaction bc certificate_data (verified_at_now clk)
                    (hash_now clk) (metadata_now clk) (block_time clk) of
               None \<Rightarrow> None
             | Some (Inl e) \<Rightarrow>
                 Some (Inr ([(''success'', PBool False), (''error'', PStr (str_error e))], bc))
             | Some (Inr (block_hash, bc')) \<Rightarrow>
                 Some (Inr ([(''success'', PBool True),
                             (''block_hash'', PStr block_hash),
                             (''block_index'', PInt (int (length (chain bc')) - 1)),
                             (''certificate_hash'',
                                PStr (calculate_certificate_hash certificate_data (rehash_now clk))),
                             (''validation_result'', PDict validation_result),
                             (''timestamp'', PStr (result_now clk))], bc'))))"




section \<open>Chains built through the interface\<close>

text \<open>
  The chains that the constructor and \<^verbatim>\<open>add_block\<close> can produce, whatever the
  difficulty, the payloads and the clock. \<^verbatim>\<open>add_certificate_transaction\<close> and
  \<^verbatim>\<open>register_certificate\<close> append through \<^verbatim>\<open>add_block\<close> only.
\<close>

inductive reachable :: "blockchain \<Rightarrow> bool" where
  construct: "Blockchain_init d t now = Some bc \<Longrightarrow> reachable bc"
| append: "reachable bc \<Longrightarrow> add_block bc payload t = Some (Inr (blk, bc')) \<Longrightarrow> reachable bc'"

text \<open>
  The chains that the constructor and \<^verbatim>\<open>add_certificate_transaction\<close> produce: the
  ones the manager can reach, which appends through \<^verbatim>\<open>register_certificate\<close> only.
\<close>

inductive registered_only :: "blockchain \<Rightarrow> bool" where
  fresh: "Blockchain_init d t now = Some bc \<Longrightarrow> registered_only bc"
| registration:
    "registered_only bc \<Longrightarrow>
     add_certificate_transaction bc certificate_data t_verified t_hash t_meta t_block =
       Some (Inr (block_hash, bc')) \<Longrightarrow>
     registered_only bc'"

text \<open>
  The integrity invariant of a chain: every block after the first names the hash of the
  block before it, and the hash stored in every block is the hash recomputed from its
  fields.
\<close>

definition chain_integrity :: "block list \<Rightarrow> bool" where
  "chain_integrity c \<longleftrightarrow>
     (\<forall>i \<in> {1..<length c}. previous_hash (c ! i) = hash (c ! (i - 1))) \<and>
     (\<forall>b \<in> set c. validate b)"

text \<open>Every block stores its position as its index.\<close>

definition positioned :: "block list \<Rightarrow> bool" where
  "positioned c \<longleftrightarrow> map index c = map int [0..<length c]"

text \<open>
  Every block marked as a certificate registration holds a dictionary under
  \<^verbatim>\<open>"transaction"\<close>, as the blocks written by \<^verbatim>\<open>add_certificate_transaction\<close> do.
\<close>

fun is_dict :: "pyval \<Rightarrow> bool" where
  "is_dict (PDict d) = True"
| "is_dict _ = False"

definition dict_transactions :: "block list \<Rightarrow> bool" where
  "dict_transactions c \<longleftrightarrow> list_all (\<lambda>b. is_registration b \<longrightarrow> is_dict (block_transaction b)) c"



definition counted_verified :: "block \<Rightarrow> bool" where
  "counted_verified b \<longleftrightarrow>
     is_registration b \<and>
     py_get (block_transaction b) ''verification_status'' = Inr (PStr ''verified'')"

section \<open>A worked scenario\<close>

text \<open>
  A chain of difficulty 1 created at \<open>genesis_time\<close>, and the registration of the
  certificate \<^verbatim>\<open>C-100\<close> on it. With these readings of the clock the genesis block is
  sealed with nonce 0 and the registration block with nonce 1.
\<close>

definition genesis_time :: pyfloat where
  "genesis_time = Float 1704110400014 (-3)"

definition genesis_now :: string where
  "genesis_now = ''2024-01-01T12:00:00.000321''"

definition example_genesis :: block where
  "example_genesis =
     \<lparr>index = 0, timestamp = genesis_time, data = genesis_data genesis_now,
      previous_hash = ''0000000000000000000000000000000000000000000000000000000000000000'',
      nonce = 0,
      hash = ''0fcb965f72ad78d902b8bc73a1836f74998a04f9382315ad31cf508e07de23ed''\<rparr>"

definition fresh_chain :: blockchain where
  "fresh_chain = \<lparr>chain = [example_genesis], difficulty = 1, pending_transactions = []\<rparr>"

definition example_certificate :: pydict where
  "example_certificate =
     [(''certificate_number'', PStr ''C-100''),
      (''owner_id'', PStr ''U1''),
      (''file_hash'', PStr ''abc123''),
      (''confidence_score'', PInt 80)]"

definition example_clock :: clock where
  "example_clock =
     \<lparr>validation_now = ''2024-01-01T12:04:59.999870'',
      verified_at_now = ''2024-01-01T12:05:00.000150'',
      hash_now = ''2024-01-01T12:05:00.000163'',
      metadata_now = ''2024-01-01T12:05:00.000171'',
      block_time = Float 1704110700013 (-3),
      rehash_now = ''2024-01-01T12:05:00.004480'',
      result_now = ''2024-01-01T12:05:00.004495''\<rparr>"

definition example_transaction :: pydict where
  "example_transaction =
     [(''type'', PStr ''certificate_verification''),
      (''certificate_id'', PNone),
      (''certificate_number'', PStr ''C-100''),
      (''certificate_type'', PNone),
      (''owner_id'', PStr ''U1''),
      (''owner_name'', PStr ''Unknown''),
      (''verification_status'', PStr ''pending''),
      (''verified_by'', PNone),
      (''verified_at'', PStr ''2024-01-01T12:05:00.000150''),
      (''hash'', PStr ''8c0994d952ff1b9ab27935781a8fc154cd0081ed36a80b97ac1455ea6161700c''),
      (''metadata'', PDict
         [(''confidence_score'', PInt 80),
          (''file_hash'', PStr ''abc123''),
          (''timestamp'', PStr ''2024-01-01T12:05:00.000171'')])]"

definition unsealed_block :: block where
  "unsealed_block =
     \<lparr>index = 1, timestamp = Float 1704110700013 (-3),
      data = registration_payload example_transaction,
      previous_hash = ''0fcb965f72ad78d902b8bc73a1836f74998a04f9382315ad31cf508e07de23ed'',
      nonce = 0,
      hash = ''ac24edbf49573565be6c5676fac245d7817e90906719d8a74577d91768cc2862''\<rparr>"

definition example_block :: block where
  "example_block =
     \<lparr>index = 1, timestamp = Float 1704110700013 (-3),
      data = registration_payload example_transaction,
      previous_hash = ''0fcb965f72ad78d902b8bc73a1836f74998a04f9382315ad31cf508e07de23ed'',
      nonce = 1,
      hash = ''07ee693079de70da93a528cc7588c25d70402742b688b8309e66bf4523d48420''\<rparr>"

definition registered_chain :: blockchain where
  "registered_chain =
     \<lparr>chain = [example_genesis, example_block], difficulty = 1, pending_transactions = []\<rparr>"

definition example_verdict :: pydict where
  "example_verdict =
     [(''valid'', PBool True),
      (''validation_score'', PFloat (Float 100 0)),
      (''rules_passed'', PList
         [PStr ''certificate_number_present'', PStr ''owner_id_present'',
          PStr ''file_hash_present'', PStr ''confidence_score_above_60'']),
      (''rules_failed'', PList []),
      (''total_rules'', PInt 4),
      (''timestamp'', PStr ''2024-01-01T12:04:59.999870'')]"

definition example_result :: pydict where
  "example_result =
     [(''success'', PBool True),
      (''block_hash'', PStr ''07ee693079de70da93a528cc7588c25d70402742b688b8309e66bf4523d48420''),
      (''block_index'', PInt 1),
      (''certificate_hash'',
         PStr ''cc668e6da3711105fd567206853c8daf0b7477f13c84ddf94bdfd2074691b855''),
      (''validation_result'', PDict example_verdict),
      (''timestamp'', PStr ''2024-01-01T12:05:00.004495'')]"

text \<open>The host's rendering of a timestamp in the examples: its decimal digits.\<close>

definition epoch_text :: "pyfloat \<Rightarrow> string" where
  "epoch_text t = float_repr t"

text \<open>The genesis block with another message and the hash it had before.\<close>

definition forged_genesis :: block where
  "forged_genesis =
     example_genesis\<lparr>data :=
       [(''type'', PStr ''genesis''),
        (''message'', PStr ''Forged ledger''),
        (''creator'', PStr ''System''),
        (''timestamp'', PStr genesis_now)]\<rparr>"

definition forged_chain :: blockchain where
  "forged_chain = registered_chain\<lparr>chain := [forged_genesis, example_block]\<rparr>"

text \<open>A block whose stored hash was overwritten with a string that starts with a zero.\<close>

definition stale_block :: block where
  "stale_block = example_genesis\<lparr>hash := ''0''\<rparr>"




text \<open>A record without an owner, and the verdict on it.\<close>

definition ownerless_certificate :: pydict where
  "ownerless_certificate =
     [(''certificate_number'', PStr ''C-101''),
      (''file_hash'', PStr ''abc123''),
      (''confidence_score'', PInt 95)]"

definition ownerless_verdict :: pydict where
  "ownerless_verdict =
     [(''valid'', PBool False),
      (''validation_score'', PFloat (Float 75 0)),
      (''rules_passed'', PList
         [PStr ''certificate_number_present'', PStr ''file_hash_present'',
          PStr ''confidence_score_above_60'']),
      (''rules_failed'', PList [PStr ''owner_id_missing'']),
      (''total_rules'', PInt 4),
      (''timestamp'', PStr ''2024-01-01T12:04:59.999870'')]"

section \<open>Evaluating SHA-256\<close>

text \<open>
  Equations that let the simplifier run the digest of a literal string: the constants and
  the rotations used by the four sigma functions, written out bit by bit.
\<close>

lemma rotr_2:
  "rotr 2 [b0, b1, b2, b3, b4, b5, b6, b7, b8, b9, b10, b11, b12, b13, b14, b15, b16, b17, b18, b19, b20, b21, b22, b23, b24, b25, b26, b27, b28, b29, b30, b31] =
     [b2, b3, b4, b5, b6, b7, b8, b9, b10, b11, b12, b13, b14, b15, b16, b17, b18, b19, b20, b21, b22, b23, b24, b25, b26, b27, b28, b29, b30, b31, b0, b1]"
  by (simp add: rotr_def)

lemma rotr_13:
  "rotr 13 [b0, b1, b2, b3, b4, b5, b6, b7, b8, b9, b10, b11, b12, b13, b14, b15, b16, b17, b18, b19, b20, b21, b22, b23, b24, b25, b26, b27, b28, b29, b30, b31] =
     [b13, b14, b15, b16, b17, b18, b19, b20, b21, b22, b23, b24, b25, b26, b27, b28, b29, b30, b31, b0, b1, b2, b3, b4, b5, b6, b7, b8, b9, b10, b11, b12]"
  by (simp add: rotr_def)

lemma rotr_22:
  "rotr 22 [b0, b1, b2, b3, b4, b5, b6, b7, b8, b9, b10, b11, b12, b13, b14, b15, b16, b17, b18, b19, b20, b21, b22, b23, b24, b25, b26, b27, b28, b29, b30, b31] =
     [b22, b23, b24, b25, b26, b27, b28, b29, b30, b31, b0, b1, b2, b3, b4, b5, b6, b7, b8, b9, b10, b11, b12, b13, b14, b15, b16, b17, b18, b19, b20, b21]"
  by (simp add: rotr_def)

lemma rotr_6:
  "rotr 6 [b0, b1, b2, b3, b4, b5, b6, b7, b8, b9, b10, b11, b12, b13, b14, b15, b16, b17, b18, b19, b20, b21, b22, b23, b24, b25, b26, b27, b28, b29, b30, b31] =
     [b6, b7, b8, b9, b10, b11, b12, b13, b14, b15, b16, b17, b18, b19, b20, b21, b22, b23, b24, b25, b26, b27, b28, b29, b30, b31, b0, b1, b2, b3, b4, b5]"
  by (simp add: rotr_def)

lemma rotr_11:
  "rotr 11 [b0, b1, b2, b3, b4, b5, b6, b7, b8, b9, b10, b11, b12, b13, b14, b15, b16, b17, b18, b19, b20, b21, b22, b23, b24, b25, b26, b27, b28, b29, b30, b31] =
     [b11, b12, b13, b14, b15, b16, b17, b18, b19, b20, b21, b22, b23, b24, b25, b26, b27, b28, b29, b30, b31, b0, b1, b2, b3, b4, b5, b6, b7, b8, b9, b10]"
  by (simp add: rotr_def)

lemma rotr_25:
  "rotr 25 [b0, b1, b2, b3, b4, b5, b6, b7, b8, b9, b10, b11, b12, b13, b14, b15, b16, b17, b18, b19, b20, b21, b22, b23, b24, b25, b26, b27, b28, b29, b30, b31] =
     [b25, b26, b27, b28, b29, b30, b31, b0, b1, b2, b3, b4, b5, b6, b7, b8, b9, b10, b11, b12, b13, b14, b15, b16, b17, b18, b19, b20, b21, b22, b23, b24]"
  by (simp add: rotr_def)

lemma rotr_7:
  "rotr 7 [b0, b1, b2, b3, b4, b5, b6, b7, b8, b9, b10, b11, b12, b13, b14, b15, b16, b17, b18, b19, b20, b21, b22, b23, b24, b25, b26, b27, b28, b29, b30, b31] =
     [b7, b8, b9, b10, b11, b12, b13, b14, b15, b16, b17, b18, b19, b20, b21, b22, b23, b24, b25, b26, b27, b28, b29, b30, b31, b0, b1, b2, b3, b4, b5, b6]"
  by (simp add: rotr_def)

lemma rotr_18:
  "rotr 18 [b0, b1, b2, b3, b4, b5, b6, b7, b8, b9, b10, b11, b12, b13, b14, b15, b16, b17, b18, b19, b20, b21, b22, b23, b24, b25, b26, b27, b28, b29, b30, b31] =
     [b18, b19, b20, b21, b22, b23, b24, b25, b26, b27, b28, b29, b30, b31, b0, b1, b2, b3, b4, b5, b6, b7, b8, b9, b10, b11, b12, b13, b14, b15, b16, b17]"
  by (simp add: rotr_def)

lemma rotr_17:
  "rotr 17 [b0, b1, b2, b3, b4, b5, b6, b7, b8, b9, b10, b11, b12, b13, b14, b15, b16, b17, b18, b19, b20, b21, b22, b23, b24, b25, b26, b27, b28, b29, b30, b31] =
     [b17, b18, b19, b20, b21, b22, b23, b24, b25, b26, b27, b28, b29, b30, b31, b0, b1, b2, b3, b4, b5, b6, b7, b8, b9, b10, b11, b12, b13, b14, b15, b16]"
  by (simp add: rotr_def)

lemma rotr_19:
  "rotr 19 [b0, b1, b2, b3, b4, b5, b6, b7, b8, b9, b10, b11, b12, b13, b14, b15, b16, b17, b18, b19, b20, b21, b22, b23, b24, b25, b26, b27, b28, b29, b30, b31] =
     [b19, b20, b21, b22, b23, b24, b25, b26, b27, b28, b29, b30, b31, b0, b1, b2, b3, b4, b5, b6, b7, b8, b9, b10, b11, b12, b13, b14, b15, b16, b17, b18]"
  by (simp add: rotr_def)

lemma shr_3:
  "shr 3 [b0, b1, b2, b3, b4, b5, b6, b7, b8, b9, b10, b11, b12, b13, b14, b15, b16, b17, b18, b19, b20, b21, b22, b23, b24, b25, b26, b27, b28, b29, b30, b31] =
     [b3, b4, b5, b6, b7, b8, b9, b10, b11, b12, b13, b14, b15, b16, b17, b18, b19, b20, b21, b22, b23, b24, b25, b26, b27, b28, b29, b30, b31, False, False, False]"
  by (simp add: shr_def numeral_eq_Suc)

lemma shr_10:
  "shr 10 [b0, b1, b2, b3, b4, b5, b6, b7, b8, b9, b10, b11, b12, b13, b14, b15, b16, b17, b18, b19, b20, b21, b22, b23, b24, b25, b26, b27, b28, b29, b30, b31] =
     [b10, b11, b12, b13, b14, b15, b16, b17, b18, b19, b20, b21, b22, b23, b24, b25, b26, b27, b28, b29, b30, b31, False, False, False, False, False, False, False, False, False, False]"
  by (simp add: shr_def numeral_eq_Suc)

lemma K256_bits:
  "K256 = [
     [False, False, False, True, True, False, False, True, True, True, True, True, False, True, False, False, False, True, False, True, False, False, False, True, False, True, False, False, False, False, True, False],
     [True, False, False, False, True, False, False, True, False, False, True, False, False, False, True, False, True, True, True, False, True, True, False, False, True, False, False, False, True, True, True, False],
     [True, True, True, True, False, False, True, True, True, True, False, True, True, True, True, True, False, False, False, False, False, False, True, True, True, False, True, False, True, True, False, True],
     [True, False, True, False, False, True, False, True, True, True, False, True, True, False, True, True, True, False, True, False, True, True, False, True, True, False, False, True, False, True, True, True],
     [True, True, False, True, True, False, True, False, False, True, False, False, False, False, True, True, False, True, True, False, True, False, True, False, True, False, False, True, True, True, False, False],
     [True, False, False, False, True, True, True, True, True, False, False, False, True, False, False, False, True, False, False, False, True, True, True, True, True, False, False, True, True, False, True, False],
     [False, False, True, False, False, True, False, True, False, True, False, False, False, False, False, True, True, True, True, True, True, True, False, False, False, True, False, False, True, False, False, True],
     [True, False, True, False, True, False, True, True, False, True, True, True, True, False, True, False, False, False, True, True, True, False, False, False, True, True, False, True, False, True, False, True],
     [False, False, False, True, True, False, False, True, False, True, False, True, False, True, False, True, True, True, True, False, False, False, False, False, False, False, False, True, True, False, True, True],
     [True, False, False, False, False, False, False, False, True, True, False, True, True, False, True, False, True, True, False, False, False, False, False, True, False, True, False, False, True, False, False, False],
     [False, True, True, True, True, True, False, True, True, False, True, False, False, False, False, True, True, False, False, False, True, True, False, False, False, False, True, False, False, True, False, False],
     [True, True, False, False, False, False, True, True, True, False, True, True, True, True, True, False, False, False, True, True, False, False, False, False, True, False, True, False, True, False, True, False],
     [False, False, True, False, True, True, True, False, True, False, True, True, True, False, True, False, False, True, True, True, True, True, False, True, False, True, False, False, True, True, True, False],
     [False, True, True, True, True, True, True, True, True, False, False, False, True, True, False, True, False, True, True, True, True, False, True, True, False, False, False, False, False, False, False, True],
     [True, True, True, False, False, True, False, True, False, True, True, False, False, False, False, False, False, False, True, True, True, False, True, True, True, True, False, True, True, False, False, True],
     [False, False, True, False, True, True, True, False, True, False, False, False, True, True, True, True, True, True, False, True, True, False, False, True, True, False, False, False, False, False, True, True],
     [True, False, False, False, False, False, True, True, True, False, False, True, False, True, True, False, True, True, False, True, True, False, False, True, False, False, True, False, False, True, True, True],
     [False, True, True, False, False, False, False, True, True, True, True, False, False, False, True, False, False, True, True, True, True, True, False, True, True, True, True, True, False, True, True, True],
     [False, True, True, False, False, False, True, True, True, False, True, True, True, False, False, True, True, False, False, False, False, False, True, True, True, True, True, True, False, False, False, False],
     [False, False, True, True, False, False, True, True, True, False, False, False, False, True, False, True, False, False, True, True, False, False, False, False, False, False, True, False, False, True, False, False],
     [True, True, True, True, False, True, True, False, False, False, True, True, False, True, False, False, True, False, False, True, False, True, True, True, True, False, True, True, False, True, False, False],
     [False, True, False, True, False, True, False, True, False, False, True, False, False, False, False, True, False, False, True, False, True, True, True, False, False, True, False, True, False, False, True, False],
     [False, False, True, True, True, False, True, True, True, False, False, True, False, True, False, True, False, False, False, False, True, True, False, True, False, False, True, True, True, False, True, False],
     [False, True, False, True, True, False, True, True, False, False, False, True, False, False, False, True, True, False, False, True, True, True, True, True, False, True, True, False, True, True, True, False],
     [False, True, False, False, True, False, True, False, True, False, False, False, True, False, True, False, False, True, True, True, True, True, False, False, False, False, False, True, True, False, False, True],
     [True, False, True, True, False, True, True, False, False, True, True, False, False, False, True, True, True, False, False, False, True, True, False, False, False, False, False, True, False, True, False, True],
     [False, False, False, True, False, False, True, True, True, True, True, False, False, True, False, False, True, True, False, False, False, False, False, False, False, False, False, False, True, True, False, True],
     [True, True, True, False, False, False, True, True, True, True, True, True, True, True, True, False, True, False, False, True, True, False, True, False, True, True, True, True, True, True, False, True],
     [True, True, False, False, True, True, True, True, True, True, False, True, False, False, False, False, False, False, False, False, False, True, True, True, False, True, True, False, False, False, True, True],
     [True, True, True, False, False, False, True, False, True, False, False, False, True, False, False, True, True, True, True, False, False, True, False, True, True, False, True, False, True, False, True, True],
     [True, False, False, False, True, False, True, False, True, True, False, False, False, True, True, False, False, True, False, True, False, False, True, True, False, True, True, False, False, False, False, False],
     [True, True, True, False, False, True, True, False, True, False, False, True, False, True, False, False, True, False, False, True, False, True, False, False, False, False, True, False, True, False, False, False],
     [True, False, True, False, False, False, False, True, False, True, False, True, False, False, False, False, True, True, True, False, True, True, False, True, True, True, True, False, False, True, False, False],
     [False, False, False, True, True, True, False, False, True, False, False, False, False, True, False, False, True, True, False, True, True, False, False, False, False, True, True, True, False, True, False, False],
     [False, False, True, True, True, True, True, True, True, False, True, True, False, True, True, False, False, False, True, True, False, True, False, False, True, False, True, True, False, False, True, False],
     [True, True, False, False, True, False, False, False, True, False, True, True, False, False, False, False, False, False, False, True, True, True, False, False, True, True, False, False, True, False, True, False],
     [False, False, True, False, True, False, True, False, True, True, False, False, True, True, True, False, False, True, False, True, False, False, False, False, True, False, True, False, False, True, True, False],
     [True, True, False, True, True, True, False, True, False, True, False, True, False, False, False, False, False, True, False, True, False, True, True, False, False, True, True, False, True, True, True, False],
     [False, True, True, True, False, True, False, False, True, False, False, True, False, False, True, True, False, True, False, False, False, False, True, True, True, False, False, False, False, False, False, True],
     [True, False, True, False, False, False, False, True, False, False, True, True, False, True, False, False, False, True, False, False, True, True, True, False, False, True, False, False, True, False, False, True],
     [True, False, False, False, False, True, False, True, False, False, False, True, False, True, True, True, True, True, True, True, True, True, False, True, False, True, False, False, False, True, False, True],
     [True, True, False, True, False, False, True, False, False, True, True, False, False, True, True, False, False, True, False, True, True, False, False, False, False, False, False, True, False, True, False, True],
     [False, False, False, False, True, True, True, False, True, True, False, True, False, False, False, True, True, True, False, True, False, False, True, False, False, True, False, False, False, False, True, True],
     [True, True, False, False, False, True, False, True, True, False, False, False, True, False, True, False, False, False, True, True, False, True, True, False, True, True, True, False, False, False, True, True],
     [True, False, False, True, True, False, False, False, False, False, False, True, False, True, True, True, False, True, False, False, True, False, False, True, True, False, False, False, True, False, True, True],
     [False, False, True, False, False, True, False, False, False, True, True, False, False, False, False, False, True, False, False, True, True, False, False, True, False, True, True, False, True, False, True, True],
     [True, False, True, False, False, False, False, True, True, False, True, False, True, True, False, False, False, True, True, True, False, False, False, False, False, False, True, False, True, True, True, True],
     [False, False, False, False, True, True, True, False, False, False, False, False, False, True, False, True, False, True, False, True, False, True, True, False, False, False, False, False, True, False, False, False],
     [False, True, True, False, True, False, False, False, True, False, False, False, False, False, True, True, False, False, True, False, False, True, False, True, True, False, False, True, True, False, False, False],
     [False, False, False, True, False, False, False, False, False, False, True, True, False, True, True, False, True, True, True, False, True, True, False, False, False, True, True, True, True, False, False, False],
     [False, False, True, True, False, False, True, False, True, True, True, False, True, True, True, False, False, False, False, True, False, False, True, False, True, True, True, False, False, True, False, False],
     [True, False, True, False, True, True, False, True, False, False, True, True, True, True, False, True, False, False, False, False, True, True, False, True, False, False, True, False, True, True, False, False],
     [True, True, False, False, True, True, False, True, False, False, True, True, False, False, False, False, False, False, True, True, True, False, False, False, True, False, False, True, True, True, False, False],
     [False, True, False, True, False, False, True, False, False, True, False, True, False, True, False, True, False, False, False, True, True, False, True, True, False, True, True, True, False, False, True, False],
     [True, True, True, True, False, False, True, False, False, True, False, True, False, False, True, True, False, False, True, True, True, False, False, True, True, True, False, True, True, False, True, False],
     [True, True, False, False, True, True, True, True, True, True, True, True, False, True, True, False, False, True, True, True, False, True, False, False, False, False, False, True, False, True, True, False],
     [False, True, True, True, False, True, True, True, False, True, False, False, False, False, False, True, True, True, True, True, False, False, False, True, False, False, True, False, True, True, True, False],
     [True, True, True, True, False, True, True, False, True, True, False, False, False, True, True, False, True, False, True, False, False, True, False, True, False, False, False, True, True, True, True, False],
     [False, False, True, False, True, False, False, False, False, False, False, True, True, True, True, False, False, False, False, True, False, False, True, True, False, False, True, False, False, False, False, True],
     [False, False, False, True, False, False, False, False, False, True, False, False, False, False, False, False, True, True, True, False, False, False, True, True, False, False, True, True, False, False, False, True],
     [False, True, False, True, True, True, True, True, True, True, True, True, True, True, True, True, False, True, True, True, True, True, False, True, False, False, False, False, True, False, False, True],
     [True, True, False, True, False, True, True, True, False, False, True, True, False, True, True, False, False, False, False, False, True, False, True, False, False, False, True, False, False, True, False, True],
     [True, True, True, False, True, True, True, True, True, True, False, False, False, True, False, True, True, False, False, True, True, True, True, True, False, True, True, True, True, True, False, True],
     [False, True, False, False, True, True, True, True, False, False, False, True, True, True, True, False, True, False, False, False, True, True, True, False, False, True, True, False, False, False, True, True]]"
  by (simp add: K256_def bits_of.simps)

lemma H256_bits:
  "H256 = [
     [True, True, True, False, False, True, True, False, False, True, True, False, False, True, True, True, True, False, False, True, False, False, False, False, False, True, False, True, False, True, True, False],
     [True, False, True, False, False, False, False, True, False, True, True, True, False, True, False, True, True, True, True, False, False, True, True, False, True, True, False, True, True, True, False, True],
     [False, True, False, False, True, True, True, False, True, True, False, False, True, True, True, True, False, True, True, True, False, True, True, False, False, False, True, True, True, True, False, False],
     [False, True, False, True, True, True, False, False, True, False, True, False, True, True, True, True, True, True, True, True, False, False, True, False, True, False, True, False, False, True, False, True],
     [True, True, True, True, True, True, True, False, False, True, False, False, True, False, True, False, False, True, True, True, False, False, False, False, True, False, False, False, True, False, True, False],
     [False, False, True, True, False, False, False, True, False, False, False, True, False, True, True, False, True, False, True, False, False, False, False, False, True, True, False, True, True, False, False, True],
     [True, True, False, True, False, True, False, True, True, False, False, True, True, False, True, True, True, True, False, False, False, False, False, True, True, True, True, True, True, False, False, False],
     [True, False, False, True, True, False, False, False, True, False, True, True, False, False, True, True, False, False, False, False, False, True, True, True, True, True, False, True, True, False, True, False]]"
  by (simp add: H256_def bits_of.simps)

lemma zeros_63:
  "replicate 63 (c::char) =
     [c, c, c, c, c, c, c, c, c, c, c, c, c, c, c, c, c, c, c, c, c, c, c, c, c, c, c, c, c, c, c, c, c, c, c, c, c, c, c, c, c, c, c, c, c, c, c, c, c, c, c, c, c, c, c, c, c, c, c, c, c, c, c]"
  by (simp add: numeral_eq_Suc)

lemma zeros_55:
  "replicate 55 (c::char) =
     [c, c, c, c, c, c, c, c, c, c, c, c, c, c, c, c, c, c, c, c, c, c, c, c, c, c, c, c, c, c, c, c, c, c, c, c, c, c, c, c, c, c, c, c, c, c, c, c, c, c, c, c, c, c, c]"
  by (simp add: numeral_eq_Suc)

lemma falses_61:
  "replicate 61 False =
     [False, False, False, False, False, False, False, False, False, False, False, False, False, False, False, False, False, False, False, False, False, False, False, False, False, False, False, False, False, False, False, False, False, False, False, False, False, False, False, False, False, False, False, False, False, False, False, False, False, False, False, False, False, False, False, False, False, False, False, False, False]"
  by (simp add: numeral_eq_Suc)


lemmas sha256_eval =
  bxor.simps band.simps bnot.simps fa_sum.simps fa_carry.simps wxor.simps wand.simps wnot.simps
  addc.simps wadd_def ch_def maj_def bsig0_def bsig1_def ssig0_def ssig1_def
  rotr_2 rotr_13 rotr_22 rotr_6 rotr_11 rotr_25 rotr_7 rotr_18 rotr_17 rotr_19 shr_3 shr_10
  K256_bits H256_bits next_vars.simps temp1.simps temp2.simps round_step_def rounds.simps
  wadds.simps compress_def bits_of_char.simps be32.simps blocks16.simps zero_fill.simps
  inc.simps byte_count.simps chars_be.simps bit_length_def pad_def zeros_63 zeros_55 falses_61
  hex_nibble.simps hex_be.simps sha256_words_def sha256_hexdigest_def
  append.simps foldl.simps list.map concat.simps

section \<open>Evaluating the model\<close>

lemma replicate_numeral: "replicate (numeral k) x = x # replicate (pred_numeral k) x"
  by (simp add: numeral_eq_Suc)

lemmas json_eval =
  json_item_def json_str_def escape_char_def float_repr_def float_repr_abs_def float_digits_def
  float_decpt_def exponent_str_def str_int_def digits_of.simps digit_char_def replicate_numeral
  dict_get_def dict_get_default_def py_repeat_def

lemma dict_get_Cons: "dict_get ((k, v) # d) k' = (if k = k' then v else dict_get d k')"
  by (simp add: dict_get_def)

lemma dict_get_Nil: "dict_get [] k = PNone"
  by (simp add: dict_get_def)

text \<open>Two test vectors of the standard.\<close>

lemma sha256_empty:
  "sha256_hexdigest [] = ''e3b0c44298fc1c149afbf4c8996fb92427ae41e4649b934ca495991b7852b855''"
  by (simp only: sha256_eval)

lemma sha256_abc:
  "sha256_hexdigest ''abc'' = ''ba7816bf8f01cfea414140de5dae2223b00361a396177a9cb410ff61f20015ad''"
  by (simp only: sha256_eval)

lemma genesis_hash:
  "calculate_hash
     \<lparr>index = 0, timestamp = genesis_time, data = genesis_data genesis_now,
      previous_hash = ''0000000000000000000000000000000000000000000000000000000000000000'',
      nonce = 0, hash = h\<rparr> =
   ''0fcb965f72ad78d902b8bc73a1836f74998a04f9382315ad31cf508e07de23ed''"
  apply (simp add: calculate_hash_def block_string_def genesis_data_def genesis_time_def
      genesis_now_def json_eval)
  apply (simp only: sha256_eval)
  done

lemma forged_hash:
  "calculate_hash forged_genesis =
   ''159800e4889586b8bf1c4a5ca72ad93e31d175dcdd4fc7c7a29a53c53a12fb52''"
  apply (simp add: calculate_hash_def block_string_def forged_genesis_def example_genesis_def
      genesis_time_def genesis_now_def json_eval)
  apply (simp only: sha256_eval)
  done

lemma stored_certificate_hash:
  "calculate_certificate_hash example_certificate ''2024-01-01T12:05:00.000163'' =
   ''8c0994d952ff1b9ab27935781a8fc154cd0081ed36a80b97ac1455ea6161700c''"
  apply (simp add: calculate_certificate_hash_def example_certificate_def json_eval)
  apply (simp only: sha256_eval)
  done

lemma returned_certificate_hash:
  "calculate_certificate_hash example_certificate ''2024-01-01T12:05:00.004480'' =
   ''cc668e6da3711105fd567206853c8daf0b7477f13c84ddf94bdfd2074691b855''"
  apply (simp add: calculate_certificate_hash_def example_certificate_def json_eval)
  apply (simp only: sha256_eval)
  done

lemma unsealed_hash:
  "calculate_hash
     \<lparr>index = 1, timestamp = Float 1704110700013 (-3),
      data = registration_payload example_transaction,
      previous_hash = ''0fcb965f72ad78d902b8bc73a1836f74998a04f9382315ad31cf508e07de23ed'',
      nonce = 0, hash = h\<rparr> =
   ''ac24edbf49573565be6c5676fac245d7817e90906719d8a74577d91768cc2862''"
  apply (simp add: calculate_hash_def block_string_def registration_payload_def
      example_transaction_def json_eval)
  apply (simp only: sha256_eval)
  done

lemma sealed_hash:
  "calculate_hash
     \<lparr>index = 1, timestamp = Float 1704110700013 (-3),
      data = registration_payload example_transaction,
      previous_hash = ''0fcb965f72ad78d902b8bc73a1836f74998a04f9382315ad31cf508e07de23ed'',
      nonce = 1, hash = h\<rparr> =
   ''07ee693079de70da93a528cc7588c25d70402742b688b8309e66bf4523d48420''"
  apply (simp add: calculate_hash_def block_string_def registration_payload_def
      example_transaction_def json_eval)
  apply (simp only: sha256_eval)
  done

lemma example_transaction_built:
  "certificate_transaction example_certificate (verified_at_now example_clock)
     (hash_now example_clock) (metadata_now example_clock) = example_transaction"
  by (simp add: certificate_transaction_def example_clock_def stored_certificate_hash
      example_transaction_def)
     (simp add: example_certificate_def dict_get_def dict_get_default_def)

lemma mine_genesis: "mine_block example_genesis 1 = Some example_genesis"
  by (subst mine_block.simps) (simp add: example_genesis_def py_prefix_def py_repeat_def)

lemma mine_unsealed: "mine_block unsealed_block 1 = Some example_block"
proof -
  have "mine_block unsealed_block 1 = mine_block (mine_step unsealed_block) 1"
    by (subst mine_block.simps) (simp add: unsealed_block_def py_prefix_def py_repeat_def)
  moreover have "mine_step unsealed_block = example_block"
    by (simp add: mine_step_def unsealed_block_def example_block_def sealed_hash)
  moreover have "mine_block example_block 1 = Some example_block"
    by (subst mine_block.simps) (simp add: example_block_def py_prefix_def py_repeat_def)
  ultimately show ?thesis by simp
qed

lemma init_fresh_chain: "Blockchain_init 1 genesis_time genesis_now = Some fresh_chain"
proof -
  have "Block_init 0 genesis_time (genesis_data genesis_now) (py_repeat ''0'' 64) = example_genesis"
    by (simp add: Block_init_def example_genesis_def py_repeat_def replicate_numeral genesis_hash)
  then show ?thesis
    by (simp add: Blockchain_init_def create_genesis_block_def mine_genesis fresh_chain_def)
qed

lemma add_example_block:
  "add_block fresh_chain (registration_payload example_transaction) (Float 1704110700013 (-3)) =
   Some (Inr (example_block, registered_chain))"
proof -
  have "Block_init 1 (Float 1704110700013 (-3)) (registration_payload example_transaction)
          (hash example_genesis) = unsealed_block"
    by (simp add: Block_init_def unsealed_block_def example_genesis_def unsealed_hash)
  then show ?thesis
    by (simp add: add_block_def get_latest_block_def fresh_chain_def mine_unsealed
        registered_chain_def)
qed

lemma example_verdict_built:
  "validate_certificate example_certificate (validation_now example_clock) = Inr example_verdict"
  by (simp add: validate_certificate_def example_certificate_def example_clock_def
      example_verdict_def dict_get_def dict_get_default_def rule_def)

lemma register_example:
  "register_certificate fresh_chain example_certificate example_clock =
   Some (Inr (example_result, registered_chain))"
proof -
  have "add_certificate_transaction fresh_chain example_certificate
          (verified_at_now example_clock) (hash_now example_clock) (metadata_now example_clock)
          (block_time example_clock) =
        Some (Inr (hash example_block, registered_chain))"
    using add_example_block
    by (simp add: add_certificate_transaction_def example_transaction_built)
       (simp add: example_clock_def)
  moreover have "py_truthy (dict_get example_verdict ''valid'')"
    by (simp add: example_verdict_def dict_get_def)
  moreover have "rehash_now example_clock = ''2024-01-01T12:05:00.004480''"
    by (simp add: example_clock_def)
  ultimately show ?thesis
    by (simp add: register_certificate_def example_verdict_built returned_certificate_hash
        example_result_def)
       (simp add: example_block_def registered_chain_def example_clock_def)
qed

section \<open>Hashing and sealing\<close>

lemma calculate_hash_fields:
  "index b = index b' \<Longrightarrow> timestamp b = timestamp b' \<Longrightarrow> data b = data b' \<Longrightarrow>
   previous_hash b = previous_hash b' \<Longrightarrow> nonce b = nonce b' \<Longrightarrow>
   calculate_hash b = calculate_hash b'"
  by (simp add: calculate_hash_def block_string_def)

lemma validate_Block_init: "validate (Block_init i t d p)"
  by (simp add: validate_def Block_init_def Let_def calculate_hash_def block_string_def)

lemma Block_init_fields:
  "index (Block_init i t d p) = i" "timestamp (Block_init i t d p) = t"
  "data (Block_init i t d p) = d" "previous_hash (Block_init i t d p) = p"
  "nonce (Block_init i t d p) = 0"
  by (simp_all add: Block_init_def Let_def)

lemma validate_mine_step: "validate (mine_step b)"
  by (simp add: validate_def mine_step_def Let_def calculate_hash_def block_string_def)

lemma mine_step_fields:
  "index (mine_step b) = index b" "timestamp (mine_step b) = timestamp b"
  "data (mine_step b) = data b" "previous_hash (mine_step b) = previous_hash b"
  "nonce (mine_step b) = nonce b + 1"
  by (simp_all add: mine_step_def Let_def)

text \<open>
  What holds of a block that \<open>mine_block\<close> returns: by induction on the unfolding of the
  loop.
\<close>

lemma mine_block_returns:
  assumes "mine_block b d = Some b'"
  shows "py_prefix (hash b') d = py_repeat ''0'' d \<and> (validate b \<or> b' \<noteq> b \<longrightarrow> validate b') \<and>
         index b' = index b \<and> timestamp b' = timestamp b \<and> data b' = data b \<and>
         previous_hash b' = previous_hash b \<and> nonce b \<le> nonce b'"
proof (rule mine_block.raw_induct [where P = "\<lambda>b d b'.
         py_prefix (hash b') d = py_repeat ''0'' d \<and> (validate b \<or> b' \<noteq> b \<longrightarrow> validate b') \<and>
         index b' = index b \<and> timestamp b' = timestamp b \<and> data b' = data b \<and>
         previous_hash b' = previous_hash b \<and> nonce b \<le> nonce b'", OF _ assms])
  fix f b d b'
  assume IH: "\<And>b d y. f b d = Some y \<Longrightarrow>
         py_prefix (hash y) d = py_repeat ''0'' d \<and> (validate b \<or> y \<noteq> b \<longrightarrow> validate y) \<and>
         index y = index b \<and> timestamp y = timestamp b \<and> data y = data b \<and>
         previous_hash y = previous_hash b \<and> nonce b \<le> nonce y"
    and step: "(if py_prefix (hash b) d \<noteq> py_repeat ''0'' d then f (mine_step b) d else Some b) =
         Some b'"
  show "py_prefix (hash b') d = py_repeat ''0'' d \<and> (validate b \<or> b' \<noteq> b \<longrightarrow> validate b') \<and>
         index b' = index b \<and> timestamp b' = timestamp b \<and> data b' = data b \<and>
         previous_hash b' = previous_hash b \<and> nonce b \<le> nonce b'"
  proof (cases "py_prefix (hash b) d \<noteq> py_repeat ''0'' d")
    case True
    with step have "f (mine_step b) d = Some b'" by simp
    from IH [OF this] show ?thesis
      by (auto simp: validate_mine_step mine_step_fields)
  next
    case False
    with step show ?thesis by simp
  qed
qed

lemma py_repeat_char: "py_repeat [c] d = replicate (nat d) c"
proof -
  have "concat (replicate n [c]) = replicate n c" for n
    by (induction n) simp_all
  then show ?thesis by (simp add: py_repeat_def)
qed

section \<open>Dictionaries under sorted keys\<close>




section \<open>The claims\<close>



text \<open>
  C4, as amended. For every difficulty \<open>d \<ge> 0\<close> and every block: whenever
  \<^verbatim>\<open>mine_block(d)\<close> returns, the first \<open>d\<close> characters of the block's hash are all
  \<^verbatim>\<open>'0'\<close>; \<^verbatim>\<open>validate()\<close> is then true provided that the stored hash was the
  recomputed one on entry, as it is for a block fresh from the constructor, or that the
  loop ran at least once. For \<open>d = 0\<close> it returns at once and leaves the block, its nonce
  included, as it was.
\<close>

theorem mine_block_seals:
  "(0 \<le> d \<and> mine_block b d = Some b' \<longrightarrow>
      take (nat d) (hash b') = replicate (nat d) (CHR ''0'') \<and>
      (validate b \<or> b' \<noteq> b \<longrightarrow> validate b')) \<and>
   mine_block b 0 = Some b \<and>
   mine_block (Block_init i t payload p) 0 = Some (Block_init i t payload p) \<and>
   validate (Block_init i t payload p)"
proof (intro conjI impI)
  assume a: "0 \<le> d \<and> mine_block b d = Some b'"
  then have r: "py_prefix (hash b') d = py_repeat ''0'' d \<and> (validate b \<or> b' \<noteq> b \<longrightarrow> validate b')"
    using mine_block_returns [of b d b'] by simp
  with a show "take (nat d) (hash b') = replicate (nat d) (CHR ''0'')"
    by (simp add: py_prefix_def py_repeat_char)
  assume "validate b \<or> b' \<noteq> b"
  with r show "validate b'" by simp
next
  show "mine_block b 0 = Some b"
    by (subst mine_block.simps) (simp add: py_prefix_def py_repeat_def)
  show "mine_block (Block_init i t payload p) 0 = Some (Block_init i t payload p)"
    by (subst mine_block.simps) (simp add: py_prefix_def py_repeat_def)
  show "validate (Block_init i t payload p)"
    by (rule validate_Block_init)
qed

theorem mine_block_seals_witness:
  "(0::int) \<le> 1 \<and> mine_block unsealed_block 1 = Some example_block \<and>
   example_block \<noteq> unsealed_block \<and>
   take (nat 1) (hash example_block) = replicate (nat 1) (CHR ''0'') \<and>
   validate example_block"
  using mine_block_seals [of 1 unsealed_block example_block] mine_unsealed
  by (simp add: example_block_def unsealed_block_def)

text \<open>
  C4 as stated fails for a block whose stored hash is not the recomputed one: with a hash
  that already starts with a zero, \<^verbatim>\<open>mine_block(1)\<close> returns at once and
  \<^verbatim>\<open>validate()\<close> is false.
\<close>

theorem mine_block_stale_counterexample:
  "mine_block stale_block 1 = Some stale_block \<and> \<not> validate stale_block"
proof
  show "mine_block stale_block 1 = Some stale_block"
    by (subst mine_block.simps)
       (simp add: stale_block_def example_genesis_def py_prefix_def py_repeat_def)
  show "\<not> validate stale_block"
    by (simp add: validate_def stale_block_def example_genesis_def genesis_hash)
qed

text \<open>
  C7. \<^verbatim>\<open>get_latest_block\<close> returns the last block of a chain that is not empty; on
  an empty chain it fails with a defined error, the \<^verbatim>\<open>IndexError\<close> of
  \<^verbatim>\<open>self.chain[-1]\<close>.
\<close>

theorem get_latest_block_last:
  "(chain bc = [] \<longrightarrow> get_latest_block bc = Inl IndexError) \<and>
   (chain bc \<noteq> [] \<longrightarrow> get_latest_block bc = Inr (chain bc ! (length (chain bc) - 1)))"
  by (simp add: get_latest_block_def last_conv_nth)

theorem get_latest_block_last_witness:
  "chain \<lparr>chain = [], difficulty = 1, pending_transactions = []\<rparr> = [] \<and>
   get_latest_block \<lparr>chain = [], difficulty = 1, pending_transactions = []\<rparr> = Inl IndexError \<and>
   chain registered_chain \<noteq> [] \<and>
   get_latest_block registered_chain = Inr example_block"
  using get_latest_block_last [of "\<lparr>chain = [], difficulty = 1, pending_transactions = []\<rparr>"]
    get_latest_block_last [of registered_chain]
  by (simp add: registered_chain_def)

text \<open>
  C8. For every certificate record on which the smart contract returns a verdict with
  \<open>valid\<close> false, that is, when the certificate number, the owner or the file hash is
  missing or empty or the confidence score is below 60, \<^verbatim>\<open>register_certificate\<close>
  returns \<^verbatim>\<open>success: False\<close> with the whole verdict, and the chain it returns is the
  chain it was given.
\<close>

theorem register_rejects_invalid:
  "(validate_certificate certificate_data now = Inr verdict \<longrightarrow>
      (dict_get verdict ''valid'' = PBool False) =
      (\<not> py_truthy (dict_get certificate_data ''certificate_number'') \<or>
       \<not> py_truthy (dict_get certificate_data ''owner_id'') \<or>
       \<not> py_truthy (dict_get certificate_data ''file_hash'') \<or>
       py_ge_int (dict_get_default certificate_data ''confidence_score'' (PInt 0)) 60 = Inr False)) \<and>
   (validate_certificate certificate_data (validation_now clk) = Inr verdict \<and>
    dict_get verdict ''valid'' = PBool False \<longrightarrow>
      register_certificate bc certificate_data clk =
        Some (Inr ([(''success'', PBool False),
                    (''error'', PStr ''Certificate failed smart contract validation''),
                    (''validation_result'', PDict verdict)], bc)))"
proof (intro conjI impI)
  assume "validate_certificate certificate_data now = Inr verdict"
  then show "(dict_get verdict ''valid'' = PBool False) =
      (\<not> py_truthy (dict_get certificate_data ''certificate_number'') \<or>
       \<not> py_truthy (dict_get certificate_data ''owner_id'') \<or>
       \<not> py_truthy (dict_get certificate_data ''file_hash'') \<or>
       py_ge_int (dict_get_default certificate_data ''confidence_score'' (PInt 0)) 60 = Inr False)"
    by (auto simp: validate_certificate_def Let_def rule_def dict_get_Cons split: sum.splits)
next
  assume "validate_certificate certificate_data (validation_now clk) = Inr verdict \<and>
    dict_get verdict ''valid'' = PBool False"
  then show "register_certificate bc certificate_data clk =
        Some (Inr ([(''success'', PBool False),
                    (''error'', PStr ''Certificate failed smart contract validation''),
                    (''validation_result'', PDict verdict)], bc))"
    by (simp add: register_certificate_def)
qed

theorem register_rejects_invalid_witness:
  "validate_certificate ownerless_certificate (validation_now example_clock) =
     Inr ownerless_verdict \<and>
   dict_get ownerless_verdict ''valid'' = PBool False \<and>
   \<not> py_truthy (dict_get ownerless_certificate ''owner_id'') \<and>
   register_certificate fresh_chain ownerless_certificate example_clock =
     Some (Inr ([(''success'', PBool False),
                 (''error'', PStr ''Certificate failed smart contract validation''),
                 (''validation_result'', PDict ownerless_verdict)], fresh_chain))"
proof -
  have v: "validate_certificate ownerless_certificate (validation_now example_clock) =
      Inr ownerless_verdict"
    by (simp add: validate_certificate_def ownerless_certificate_def example_clock_def
        ownerless_verdict_def dict_get_def dict_get_default_def rule_def)
  have f: "dict_get ownerless_verdict ''valid'' = PBool False"
    by (simp add: ownerless_verdict_def dict_get_def)
  have o: "\<not> py_truthy (dict_get ownerless_certificate ''owner_id'')"
    by (simp add: ownerless_certificate_def dict_get_def)
  from register_rejects_invalid
    [of ownerless_certificate "validation_now example_clock" ownerless_verdict example_clock
      fresh_chain] v f o
  show ?thesis by simp
qed

text \<open>What the two scans return, and what the statistics count.\<close>

lemma verify_loop_result:
  "verify_loop isoformat bs h = Inr r \<Longrightarrow>
     r = not_found \<or> (\<exists>b \<in> set bs. r = found isoformat b (block_transaction b))"
  by (induction bs) (auto split: if_splits sum.splits)

lemma stats_loop_counts:
  "stats_loop bs t v = Inr (t', v') \<Longrightarrow>
     t' = t + int (length (filter is_registration bs)) \<and>
     v' = v + int (length (filter counted_verified bs))"
proof (induction bs arbitrary: t v)
  case Nil
  then show ?case by simp
next
  case (Cons b bs)
  show ?case
  proof (cases "is_registration b")
    case False
    with Cons show ?thesis by (simp add: counted_verified_def)
  next
    case True
    with Cons.prems obtain s where s: "py_get (block_transaction b) ''verification_status'' = Inr s"
      by (auto split: sum.splits)
    with True Cons.prems have
      "stats_loop bs (t + 1) (if s = PStr ''verified'' then v + 1 else v) = Inr (t', v')"
      by simp
    from Cons.IH [OF this] True s show ?thesis by (auto simp: counted_verified_def)
  qed
qed

text \<open>
  C10. Whenever \<^verbatim>\<open>verify_certificate\<close> returns, the fields \<open>exists\<close> and
  \<open>verified\<close> of the result are equal, and a found transaction is reported with
  \<open>verified\<close> true and the status \<^verbatim>\<open>VALID\<close> whatever status the transaction stores;
  \<^verbatim>\<open>get_chain_stats\<close> counts as verified the registration blocks whose stored status
  is the string \<^verbatim>\<open>verified\<close>, and no others.
\<close>

theorem verified_means_present:
  "(verify_certificate isoformat bc h = Inr r \<longrightarrow>
      dict_get r ''exists'' = dict_get r ''verified'' \<and>
      (dict_get r ''exists'' = PBool True \<longrightarrow>
         dict_get r ''verified'' = PBool True \<and>
         dict_get r ''verification_status'' = PStr ''VALID'')) \<and>
   (get_chain_stats bc = Inr s \<longrightarrow>
      dict_get s ''verified_certificates'' =
        PInt (int (length (filter counted_verified (chain bc)))))"
proof (intro conjI impI)
  assume "verify_certificate isoformat bc h = Inr r"
  then have r: "r = not_found \<or>
      (\<exists>b \<in> set (chain bc). r = found isoformat b (block_transaction b))"
    unfolding verify_certificate_def by (rule verify_loop_result)
  then show "dict_get r ''exists'' = dict_get r ''verified''"
    by (auto simp: not_found_def found_def dict_get_Cons)
  assume "dict_get r ''exists'' = PBool True"
  with r show "dict_get r ''verified'' = PBool True"
    by (auto simp: not_found_def found_def dict_get_Cons)
  from r \<open>dict_get r ''exists'' = PBool True\<close>
  show "dict_get r ''verification_status'' = PStr ''VALID''"
    by (auto simp: not_found_def found_def dict_get_Cons)
next
  assume "get_chain_stats bc = Inr s"
  then obtain t v where tv: "stats_loop (chain bc) 0 0 = Inr (t, v)"
    and s: "s = [(''total_blocks'', PInt (int (length (chain bc)))),
               (''total_certificates'', PInt t),
               (''verified_certificates'', PInt v),
               (''chain_valid'', PBool (is_chain_valid bc)),
               (''difficulty'', PInt (difficulty bc)),
               (''latest_block_hash'',
                  if chain bc \<noteq> [] then PStr (hash (last (chain bc))) else PNone),
               (''latest_block_index'', PInt (int (length (chain bc)) - 1))]"
    by (auto simp: get_chain_stats_def split: sum.splits)
  from stats_loop_counts [OF tv] s
  show "dict_get s ''verified_certificates'' =
        PInt (int (length (filter counted_verified (chain bc))))"
    by (simp add: dict_get_Cons)
qed

lemma example_block_transaction: "block_transaction example_block = PDict example_transaction"
  by (simp add: block_transaction_def example_block_def registration_payload_def
      dict_get_default_def)

lemma example_block_registration:
  "is_registration example_block" "dict_contains (data example_block) ''transaction''"
  "\<not> is_registration example_genesis"
  by (simp_all add: is_registration_def dict_contains_def example_block_def
      registration_payload_def example_genesis_def genesis_data_def dict_get_def)

lemma verify_stored_hash:
  "verify_certificate isoformat registered_chain
     ''8c0994d952ff1b9ab27935781a8fc154cd0081ed36a80b97ac1455ea6161700c'' =
   Inr (found isoformat example_block (PDict example_transaction))"
  by (simp add: verify_certificate_def registered_chain_def example_block_registration
      example_block_transaction)
     (simp add: example_transaction_def dict_get_def)

theorem verified_means_present_witness:
  "verify_certificate epoch_text registered_chain
     ''8c0994d952ff1b9ab27935781a8fc154cd0081ed36a80b97ac1455ea6161700c'' =
     Inr (found epoch_text example_block (PDict example_transaction)) \<and>
   dict_get example_transaction ''verification_status'' = PStr ''pending'' \<and>
   dict_get (found epoch_text example_block (PDict example_transaction)) ''exists'' = PBool True \<and>
   dict_get (found epoch_text example_block (PDict example_transaction)) ''verified'' = PBool True \<and>
   dict_get (found epoch_text example_block (PDict example_transaction)) ''verification_status'' =
     PStr ''VALID'' \<and>
   get_chain_stats registered_chain =
     Inr [(''total_blocks'', PInt 2),
          (''total_certificates'', PInt 1),
          (''verified_certificates'', PInt 0),
          (''chain_valid'', PBool (is_chain_valid registered_chain)),
          (''difficulty'', PInt 1),
          (''latest_block_hash'',
             PStr ''07ee693079de70da93a528cc7588c25d70402742b688b8309e66bf4523d48420''),
          (''latest_block_index'', PInt 1)] \<and>
   filter counted_verified (chain registered_chain) = []"
proof -
  let ?h = "''8c0994d952ff1b9ab27935781a8fc154cd0081ed36a80b97ac1455ea6161700c''"
  let ?r = "found epoch_text example_block (PDict example_transaction)"
  let ?s = "[(''total_blocks'', PInt 2),
          (''total_certificates'', PInt 1),
          (''verified_certificates'', PInt 0),
          (''chain_valid'', PBool (is_chain_valid registered_chain)),
          (''difficulty'', PInt 1),
          (''latest_block_hash'',
             PStr ''07ee693079de70da93a528cc7588c25d70402742b688b8309e66bf4523d48420''),
          (''latest_block_index'', PInt 1)]"
  have v: "verify_certificate epoch_text registered_chain ?h = Inr ?r"
    by (rule verify_stored_hash)
  have p: "dict_get example_transaction ''verification_status'' = PStr ''pending''"
    by (simp add: example_transaction_def dict_get_def)
  have e: "dict_get ?r ''exists'' = PBool True"
    by (simp add: found_def dict_get_def)
  have g: "get_chain_stats registered_chain = Inr ?s"
    by (simp add: get_chain_stats_def registered_chain_def example_block_registration
        example_block_transaction p)
       (simp add: example_block_def)
  have c: "filter counted_verified (chain registered_chain) = []"
    by (simp add: registered_chain_def counted_verified_def example_block_registration
        example_block_transaction p)
  note t = verified_means_present [of epoch_text registered_chain ?h ?r ?s]
  from t v e have "dict_get ?r ''verified'' = PBool True"
    and "dict_get ?r ''verification_status'' = PStr ''VALID''"
    by blast+
  with v p e g c show ?thesis by blast
qed

text \<open>The loop of \<^verbatim>\<open>is_chain_valid\<close>: when it passes, and where it stops.\<close>

lemma is_chain_valid_loop_ok:
  "is_chain_valid_loop c i = Chain_ok \<longleftrightarrow>
     (\<forall>j. i \<le> j \<and> j < length c \<longrightarrow>
        validate (c ! j) \<and> previous_hash (c ! j) = hash (c ! (j - 1)))"
proof (induction c i rule: is_chain_valid_loop.induct)
  case (1 c i)
  show ?case
  proof (cases "i < length c")
    case False
    then show ?thesis
      by (subst is_chain_valid_loop.simps) auto
  next
    case inside: True
    show ?thesis
    proof (cases "validate (c ! i) \<and> previous_hash (c ! i) = hash (c ! (i - 1))")
      case False
      with inside have "is_chain_valid_loop c i \<noteq> Chain_ok"
        by (subst is_chain_valid_loop.simps) auto
      moreover from False inside have
        "\<not> (\<forall>j. i \<le> j \<and> j < length c \<longrightarrow>
            validate (c ! j) \<and> previous_hash (c ! j) = hash (c ! (j - 1)))"
        by blast
      ultimately show ?thesis by simp
    next
      case True
      with inside have "is_chain_valid_loop c i = is_chain_valid_loop c (i + 1)"
        by (subst is_chain_valid_loop.simps) simp
      moreover from 1 inside True have
        "is_chain_valid_loop c (i + 1) = Chain_ok \<longleftrightarrow>
           (\<forall>j. i + 1 \<le> j \<and> j < length c \<longrightarrow>
              validate (c ! j) \<and> previous_hash (c ! j) = hash (c ! (j - 1)))"
        by simp
      moreover have "i \<le> j \<longleftrightarrow> j = i \<or> i + 1 \<le> j" for j
        by auto
      ultimately show ?thesis using True by auto
    qed
  qed
qed

lemma is_chain_valid_loop_invalid_hash:
  "i \<le> k \<Longrightarrow> k < length c \<Longrightarrow>
   (\<forall>j. i \<le> j \<and> j < k \<longrightarrow> validate (c ! j) \<and> previous_hash (c ! j) = hash (c ! (j - 1))) \<Longrightarrow>
   \<not> validate (c ! k) \<Longrightarrow> is_chain_valid_loop c i = Invalid_hash k"
proof (induction c i rule: is_chain_valid_loop.induct)
  case (1 c i)
  show ?case
  proof (cases "i = k")
    case True
    with 1(3,5) show ?thesis
      by (subst is_chain_valid_loop.simps) simp
  next
    case False
    with 1(2) have less: "i < k" by simp
    with 1(3,4) have here: "i < length c" "validate (c ! i)"
      "previous_hash (c ! i) = hash (c ! (i - 1))"
      by simp_all
    then have "is_chain_valid_loop c i = is_chain_valid_loop c (i + 1)"
      by (subst is_chain_valid_loop.simps) simp
    moreover from 1(1) [OF here(1)] here less 1(3,4,5)
    have "is_chain_valid_loop c (i + 1) = Invalid_hash k"
      by simp
    ultimately show ?thesis by simp
  qed
qed

lemma is_chain_valid_loop_genesis:
  "1 \<le> i \<Longrightarrow> hash g' = hash g \<Longrightarrow>
   is_chain_valid_loop (g' # rest) i = is_chain_valid_loop (g # rest) i"
proof (induction "g # rest" i rule: is_chain_valid_loop.induct)
  case (1 i)
  have nth: "(g' # rest) ! j = (g # rest) ! j" if "1 \<le> j" for j
    using that by (cases j) simp_all
  have prev: "hash ((g' # rest) ! (j - 1)) = hash ((g # rest) ! (j - 1))" if "1 \<le> j" for j
    using that 1(3) by (cases "j - 1") simp_all
  show ?case
  proof (cases "i < length (g # rest) \<and> validate ((g # rest) ! i) \<and>
      previous_hash ((g # rest) ! i) = hash ((g # rest) ! (i - 1))")
    case True
    with 1 have "is_chain_valid_loop (g' # rest) (i + 1) = is_chain_valid_loop (g # rest) (i + 1)"
      by simp
    moreover from True have "is_chain_valid_loop (g # rest) i = is_chain_valid_loop (g # rest) (i + 1)"
      by (subst is_chain_valid_loop.simps) simp
    moreover from True nth [OF 1(2)] prev [OF 1(2)]
    have "is_chain_valid_loop (g' # rest) i = is_chain_valid_loop (g' # rest) (i + 1)"
      by (subst is_chain_valid_loop.simps) simp
    ultimately show ?thesis by simp
  next
    case False
    with nth [OF 1(2)] prev [OF 1(2)] show ?thesis
      by (subst (1 2) is_chain_valid_loop.simps) auto
  qed
qed

lemma is_chain_valid_integrity: "is_chain_valid bc \<longleftrightarrow>
  (\<forall>j. 1 \<le> j \<and> j < length (chain bc) \<longrightarrow>
     validate (chain bc ! j) \<and> previous_hash (chain bc ! j) = hash (chain bc ! (j - 1)))"
  by (simp add: is_chain_valid_def is_chain_valid_report_def is_chain_valid_loop_ok)

lemma chain_integrity_valid: "chain_integrity (chain bc) \<Longrightarrow> is_chain_valid bc"
  by (auto simp: is_chain_valid_integrity chain_integrity_def)

text \<open>What a successful call of the constructor and of \<^verbatim>\<open>add_block\<close> gives.\<close>

lemma Blockchain_init_Some:
  assumes "Blockchain_init d t now = Some bc"
  shows "\<exists>g. chain bc = [g] \<and> difficulty bc = d \<and> validate g \<and> index g = 0 \<and>
     previous_hash g = replicate 64 (CHR ''0'')"
proof -
  from assms obtain g where
    g: "mine_block (Block_init 0 t (genesis_data now) (py_repeat ''0'' 64)) d = Some g"
    and bc: "bc = \<lparr>chain = [g], difficulty = d, pending_transactions = []\<rparr>"
    by (auto simp: Blockchain_init_def create_genesis_block_def split: option.splits)
  from mine_block_returns [OF g] have "validate g" "index g = 0"
    "previous_hash g = replicate 64 (CHR ''0'')"
    by (simp_all add: validate_Block_init Block_init_fields py_repeat_char)
  with bc show ?thesis by simp
qed

lemma add_block_Some:
  assumes "add_block bc payload t = Some (Inr (blk, bc'))"
  shows "chain bc \<noteq> [] \<and> bc' = bc\<lparr>chain := chain bc @ [blk]\<rparr> \<and> validate blk \<and>
     index blk = int (length (chain bc)) \<and> previous_hash blk = hash (last (chain bc)) \<and>
     data blk = payload \<and> timestamp blk = t"
proof -
  from assms have ne: "chain bc \<noteq> []"
    by (auto simp: add_block_def get_latest_block_def split: if_splits)
  with assms have
    m: "mine_block (Block_init (int (length (chain bc))) t payload (hash (last (chain bc))))
          (difficulty bc) = Some blk"
    and bc': "bc' = bc\<lparr>chain := chain bc @ [blk]\<rparr>"
    by (auto simp: add_block_def get_latest_block_def split: option.splits)
  from mine_block_returns [OF m] ne bc' show ?thesis
    by (simp add: validate_Block_init Block_init_fields)
qed

lemma positioned_snoc: "positioned (c @ [b]) \<longleftrightarrow> positioned c \<and> index b = int (length c)"
  by (auto simp: positioned_def)

lemma chain_integrity_snoc:
  assumes "c \<noteq> []"
  shows "chain_integrity (c @ [b]) \<longleftrightarrow>
    chain_integrity c \<and> validate b \<and> previous_hash b = hash (last c)"
proof -
  have "(\<forall>i \<in> {1..<length (c @ [b])}. previous_hash ((c @ [b]) ! i) = hash ((c @ [b]) ! (i - 1))) \<longleftrightarrow>
      (\<forall>i \<in> {1..<length c}. previous_hash (c ! i) = hash (c ! (i - 1))) \<and>
      previous_hash b = hash (last c)"
  proof -
    have split: "{1..<length (c @ [b])} = {1..<length c} \<union> {length c}"
      using assms by (cases c) auto
    have "previous_hash ((c @ [b]) ! i) = hash ((c @ [b]) ! (i - 1)) \<longleftrightarrow>
        previous_hash (c ! i) = hash (c ! (i - 1))" if "i \<in> {1..<length c}" for i
    proof -
      from that have "i < length c" and "i - 1 < length c" by auto
      then show ?thesis by (simp add: nth_append)
    qed
    moreover have "previous_hash ((c @ [b]) ! length c) = hash ((c @ [b]) ! (length c - 1)) \<longleftrightarrow>
        previous_hash b = hash (last c)"
      using assms by (simp add: nth_append last_conv_nth)
    ultimately show ?thesis unfolding split by auto
  qed
  then show ?thesis by (auto simp: chain_integrity_def)
qed

lemma reachable_invariant:
  "reachable bc \<Longrightarrow>
     chain bc \<noteq> [] \<and> positioned (chain bc) \<and> chain_integrity (chain bc) \<and>
     previous_hash (chain bc ! 0) = replicate 64 (CHR ''0'')"
proof (induction rule: reachable.induct)
  case (construct d t now bc)
  from Blockchain_init_Some [OF construct] show ?case
    by (auto simp: positioned_def chain_integrity_def)
next
  case (append bc payload t blk bc')
  from add_block_Some [OF append(2)] append(3) show ?case
    by (simp add: positioned_snoc chain_integrity_snoc nth_append)
qed

text \<open>
  C3, as amended. On every chain that the constructor and successful appends produce,
  every block after the first names the hash of the block before it and every stored hash
  is the recomputed one, the first block naming the sentinel of 64 zeros; so
  \<^verbatim>\<open>is_chain_valid\<close> is true, and it is true again after \<^verbatim>\<open>add_block\<close>, whose
  block is then the latest and names the hash of the block that was the latest before:
  the hash of the genesis block when the chain held one block, not the sentinel.
\<close>

theorem reachable_chain_integrity:
  "reachable bc \<longrightarrow>
     chain_integrity (chain bc) \<and> is_chain_valid bc \<and>
     previous_hash (chain bc ! 0) = replicate 64 (CHR ''0'') \<and>
     (add_block bc payload t = Some (Inr (blk, bc')) \<longrightarrow>
        is_chain_valid bc' \<and> get_latest_block bc' = Inr blk \<and>
        get_latest_block bc = Inr (last (chain bc)) \<and>
        previous_hash blk = hash (last (chain bc)))"
proof (intro impI conjI)
  assume r: "reachable bc"
  from reachable_invariant [OF r]
  show "chain_integrity (chain bc)"
    and "previous_hash (chain bc ! 0) = replicate 64 (CHR ''0'')"
    by simp_all
  then show "is_chain_valid bc"
    by (simp add: chain_integrity_valid)
  assume a: "add_block bc payload t = Some (Inr (blk, bc'))"
  with r have "reachable bc'" by (rule reachable.append)
  from reachable_invariant [OF this] show "is_chain_valid bc'"
    by (simp add: chain_integrity_valid)
  from add_block_Some [OF a] show "get_latest_block bc' = Inr blk"
    and "get_latest_block bc = Inr (last (chain bc))"
    and "previous_hash blk = hash (last (chain bc))"
    by (simp_all add: get_latest_block_def)
qed

lemma reachable_fresh_chain: "reachable fresh_chain"
  using init_fresh_chain by (rule reachable.construct)

lemma reachable_registered_chain: "reachable registered_chain"
  using reachable_fresh_chain add_example_block by (rule reachable.append)

theorem reachable_chain_integrity_witness:
  "reachable fresh_chain \<and>
   add_block fresh_chain (registration_payload example_transaction) (Float 1704110700013 (-3)) =
     Some (Inr (example_block, registered_chain)) \<and>
   chain_integrity (chain fresh_chain) \<and> is_chain_valid fresh_chain \<and>
   is_chain_valid registered_chain \<and> get_latest_block registered_chain = Inr example_block \<and>
   previous_hash example_block = hash example_genesis"
  using reachable_chain_integrity
    [of fresh_chain "registration_payload example_transaction" "Float 1704110700013 (-3)"
      example_block registered_chain]
    reachable_fresh_chain add_example_block
  by (simp add: fresh_chain_def)

text \<open>
  C3 as stated fails on the first append: the chain holds the genesis block alone, and the
  new block names the hash of the genesis block, which is not the sentinel of 64 zeros.
\<close>

theorem first_append_counterexample:
  "Blockchain_init 1 genesis_time genesis_now = Some fresh_chain \<and>
   length (chain fresh_chain) = 1 \<and>
   add_block fresh_chain (registration_payload example_transaction) (Float 1704110700013 (-3)) =
     Some (Inr (example_block, registered_chain)) \<and>
   get_latest_block registered_chain = Inr example_block \<and>
   previous_hash example_block \<noteq> py_repeat ''0'' 64"
  using init_fresh_chain add_example_block
  by (simp add: fresh_chain_def registered_chain_def get_latest_block_def example_block_def
      py_repeat_def replicate_numeral)

text \<open>
  C1. Tampering with a block after the genesis block is found where the claim says: on a
  chain that passes \<^verbatim>\<open>is_chain_valid\<close>, a block at an index from 1 on whose stored
  hash is no longer the recomputed one makes the loop stop at that index. The stored hash
  stops being the recomputed one when the hash itself is overwritten, or when another
  field is and the digest of the new fields differs from the old digest.
\<close>

lemma tampering_detected_after_genesis:
  assumes "is_chain_valid bc" and "1 \<le> i" and "i < length (chain bc)" and "\<not> validate b'"
  shows "is_chain_valid_report (bc\<lparr>chain := (chain bc)[i := b']\<rparr>) = Invalid_hash i"
proof -
  let ?c = "(chain bc)[i := b']"
  have "validate (?c ! j) \<and> previous_hash (?c ! j) = hash (?c ! (j - 1))"
    if "1 \<le> j \<and> j < i" for j
  proof -
    from that assms(3) have "j \<noteq> i" and "j - 1 \<noteq> i" and "j < length (chain bc)" by auto
    with that assms(1) show ?thesis
      by (simp add: is_chain_valid_integrity)
  qed
  moreover have "\<not> validate (?c ! i)"
    using assms(3,4) by simp
  ultimately have "is_chain_valid_loop ?c 1 = Invalid_hash i"
    using assms(2,3) by (intro is_chain_valid_loop_invalid_hash) simp_all
  then show ?thesis by (simp add: is_chain_valid_report_def)
qed

lemma stale_hash_not_valid:
  assumes "validate b"
    and "hash b' \<noteq> hash b \<and> calculate_hash b' = calculate_hash b \<or>
         hash b' = hash b \<and> calculate_hash b' \<noteq> calculate_hash b"
  shows "\<not> validate b'"
  using assms by (auto simp: validate_def)

lemma tampering_detected_example:
  "is_chain_valid registered_chain \<and>
   \<not> validate (example_block\<lparr>hash := ''00''\<rparr>) \<and>
   is_chain_valid_report
     (registered_chain\<lparr>chain := (chain registered_chain)[1 := example_block\<lparr>hash := ''00''\<rparr>]\<rparr>) =
     Invalid_hash 1"
proof -
  have v: "is_chain_valid registered_chain"
    using reachable_invariant [OF reachable_registered_chain] by (simp add: chain_integrity_valid)
  have n: "\<not> validate (example_block\<lparr>hash := ''00''\<rparr>)"
    by (simp add: validate_def example_block_def sealed_hash)
  have l: "1 < length (chain registered_chain)"
    by (simp add: registered_chain_def)
  from tampering_detected_after_genesis [OF v _ l n] v n show ?thesis by simp
qed

text \<open>
  The genesis block is outside the loop, which starts at index 1 and recomputes the hash
  of the later block of each pair only: of the genesis block it reads nothing but the
  stored hash.
\<close>

lemma genesis_content_unchecked:
  assumes "hash g' = hash g"
  shows "is_chain_valid_report (bc\<lparr>chain := g' # rest\<rparr>) =
         is_chain_valid_report (bc\<lparr>chain := g # rest\<rparr>)"
  unfolding is_chain_valid_report_def using assms
  by (simp add: is_chain_valid_loop_genesis [where g' = g' and g = g])

text \<open>
  C1 at the genesis block of the worked scenario: the chain of two blocks passes
  \<^verbatim>\<open>is_chain_valid\<close>; the message of its genesis block, which is not the latest block,
  is then overwritten and the block not resealed, so that its stored hash is no longer
  the recomputed one; and \<^verbatim>\<open>is_chain_valid\<close> still returns true.
\<close>

theorem genesis_tampering_undetected:
  "reachable registered_chain \<and> is_chain_valid registered_chain \<and>
   chain forged_chain = (chain registered_chain)[0 := forged_genesis] \<and>
   data forged_genesis \<noteq> data example_genesis \<and>
   hash forged_genesis = hash example_genesis \<and>
   \<not> validate forged_genesis \<and>
   is_chain_valid forged_chain"
proof -
  have v: "is_chain_valid registered_chain"
    using reachable_invariant [OF reachable_registered_chain] by (simp add: chain_integrity_valid)
  have "is_chain_valid_report forged_chain = is_chain_valid_report registered_chain"
    using genesis_content_unchecked
      [where g' = forged_genesis and g = example_genesis and bc = registered_chain
        and rest = "[example_block]"]
    by (simp add: forged_chain_def forged_genesis_def registered_chain_def)
  with v have "is_chain_valid forged_chain"
    by (simp add: is_chain_valid_def)
  moreover have "\<not> validate forged_genesis"
    by (simp add: validate_def forged_hash) (simp add: forged_genesis_def example_genesis_def)
  moreover have "data forged_genesis \<noteq> data example_genesis"
    by (simp add: forged_genesis_def example_genesis_def genesis_data_def)
  ultimately show ?thesis
    using v reachable_registered_chain
    by (simp add: forged_chain_def registered_chain_def forged_genesis_def)
qed

text \<open>
  C2. The scenario of the claim, run on the model: on a fresh chain of difficulty 1 the
  record \<^verbatim>\<open>C-100\<close> passes the smart contract and is registered in block 1, whose
  hash starts with a zero. The result holds the digest that
  \<^verbatim>\<open>register_certificate\<close> computes by a second call of
  \<^verbatim>\<open>calculate_certificate_hash\<close>, at a later reading of the clock than the one that
  went into the transaction; \<^verbatim>\<open>verify_certificate\<close> on it reports that nothing was
  found, while the block stores another digest.
\<close>

theorem register_then_verify_not_found:
  "Blockchain_init 1 genesis_time genesis_now = Some fresh_chain \<and>
   register_certificate fresh_chain example_certificate example_clock =
     Some (Inr (example_result, registered_chain)) \<and>
   dict_get example_result ''success'' = PBool True \<and>
   dict_get example_result ''block_hash'' = PStr (hash example_block) \<and>
   hd (hash example_block) = CHR ''0'' \<and>
   dict_get example_result ''block_index'' = PInt 1 \<and>
   dict_get example_result ''certificate_hash'' =
     PStr ''cc668e6da3711105fd567206853c8daf0b7477f13c84ddf94bdfd2074691b855'' \<and>
   verify_certificate isoformat registered_chain
     ''cc668e6da3711105fd567206853c8daf0b7477f13c84ddf94bdfd2074691b855'' = Inr not_found \<and>
   dict_get not_found ''exists'' = PBool False \<and>
   py_get (block_transaction example_block) ''hash'' =
     Inr (PStr ''8c0994d952ff1b9ab27935781a8fc154cd0081ed36a80b97ac1455ea6161700c'')"
proof -
  have "verify_certificate isoformat registered_chain
     ''cc668e6da3711105fd567206853c8daf0b7477f13c84ddf94bdfd2074691b855'' = Inr not_found"
    by (simp add: verify_certificate_def registered_chain_def example_block_registration
        example_block_transaction)
       (simp add: example_transaction_def dict_get_def)
  moreover have "py_get (block_transaction example_block) ''hash'' =
     Inr (PStr ''8c0994d952ff1b9ab27935781a8fc154cd0081ed36a80b97ac1455ea6161700c'')"
    by (simp add: example_block_transaction) (simp add: example_transaction_def dict_get_def)
  moreover have "dict_get example_result ''success'' = PBool True"
    "dict_get example_result ''block_hash'' = PStr (hash example_block)"
    "dict_get example_result ''block_index'' = PInt 1"
    "dict_get example_result ''certificate_hash'' =
       PStr ''cc668e6da3711105fd567206853c8daf0b7477f13c84ddf94bdfd2074691b855''"
    by (simp_all add: example_result_def dict_get_def example_block_def)
  moreover have "hd (hash example_block) = CHR ''0''"
    by (simp add: example_block_def)
  moreover have "dict_get not_found ''exists'' = PBool False"
    by (simp add: not_found_def dict_get_def)
  ultimately show ?thesis
    using init_fresh_chain register_example by simp
qed

text \<open>
  The same on every chain and for every record and clock: a successful registration
  returns the digest taken at the reading \<open>rehash_now\<close> and stores the one taken at
  \<open>hash_now\<close>.
\<close>

lemma returned_hash_recomputed:
  assumes "register_certificate bc certificate_data clk = Some (Inr (result, bc'))"
    and "dict_get result ''success'' = PBool True"
  shows "dict_get result ''certificate_hash'' =
           PStr (calculate_certificate_hash certificate_data (rehash_now clk)) \<and>
         py_get (block_transaction (last (chain bc'))) ''hash'' =
           Inr (PStr (calculate_certificate_hash certificate_data (hash_now clk)))"
proof -
  from assms obtain verdict block_hash where
    a: "add_certificate_transaction bc certificate_data (verified_at_now clk) (hash_now clk)
          (metadata_now clk) (block_time clk) = Some (Inr (block_hash, bc'))"
    and r: "result =
      [(''success'', PBool True),
       (''block_hash'', PStr block_hash),
       (''block_index'', PInt (int (length (chain bc')) - 1)),
       (''certificate_hash'', PStr (calculate_certificate_hash certificate_data (rehash_now clk))),
       (''validation_result'', PDict verdict),
       (''timestamp'', PStr (result_now clk))]"
    by (auto simp: register_certificate_def dict_get_Cons
          split: sum.splits if_splits option.splits)
  from a obtain blk where
    b: "add_block bc
          (registration_payload (certificate_transaction certificate_data (verified_at_now clk)
             (hash_now clk) (metadata_now clk))) (block_time clk) = Some (Inr (blk, bc'))"
    by (auto simp: add_certificate_transaction_def split: option.splits sum.splits)
  from add_block_Some [OF b] have
    "block_transaction (last (chain bc')) =
       PDict (certificate_transaction certificate_data (verified_at_now clk)
         (hash_now clk) (metadata_now clk))"
    by (simp add: block_transaction_def registration_payload_def dict_get_default_def)
  then have "py_get (block_transaction (last (chain bc'))) ''hash'' =
      Inr (PStr (calculate_certificate_hash certificate_data (hash_now clk)))"
    by (simp add: certificate_transaction_def dict_get_Cons)
  with r show ?thesis by (simp add: dict_get_Cons)
qed












text \<open>
  The chains of the manager are well formed in both respects: the constructor and
  \<^verbatim>\<open>add_block\<close> store the position as the index, the genesis block is no
  registration, and every registration block holds the transaction dictionary.
\<close>

lemma registered_only_well_formed:
  "registered_only bc \<Longrightarrow>
     reachable bc \<and> dict_transactions (chain bc) \<and> positioned (chain bc)"
proof (induction rule: registered_only.induct)
  case (fresh d t now bc)
  then have r: "reachable bc" by (rule reachable.construct)
  from fresh obtain g where
    g: "mine_block (Block_init 0 t (genesis_data now) (py_repeat ''0'' 64)) d = Some g"
    and c: "chain bc = [g]"
    by (auto simp: Blockchain_init_def create_genesis_block_def split: option.splits)
  from mine_block_returns [OF g] have "data g = genesis_data now"
    by (simp add: Block_init_fields)
  then have "\<not> is_registration g"
    by (simp add: is_registration_def genesis_data_def dict_get_def)
  with c r reachable_invariant [OF r] show ?case
    by (simp add: dict_transactions_def)
next
  case (registration bc certificate_data t_verified t_hash t_meta t_block block_hash bc')
  from registration(2) obtain blk where
    b: "add_block bc
          (registration_payload (certificate_transaction certificate_data t_verified t_hash t_meta))
          t_block = Some (Inr (blk, bc'))"
    by (auto simp: add_certificate_transaction_def split: option.splits sum.splits)
  with registration(3) have r: "reachable bc'"
    by (auto intro: reachable.append)
  from add_block_Some [OF b] have "is_dict (block_transaction blk)"
    and "chain bc' = chain bc @ [blk]"
    by (simp_all add: block_transaction_def registration_payload_def dict_get_default_def)
  with registration(3) r reachable_invariant [OF r] show ?case
    by (simp add: dict_transactions_def)
qed









end
